theory Spec2Isabelle
  imports Complex_Main
begin

section \<open>JavaScript values\<close>

text \<open>
  TypeScript types are erased at run time, so data that reaches the program from outside
  (a stored or posted configuration, a model's reply parsed as JSON) is an arbitrary
  JavaScript value. Objects are association lists of their own properties; numbers are
  kept as exact reals (IEEE rounding is not represented); strings are the bytes of their
  UTF-8 encoding.
\<close>

datatype jsval =
    JUndefined
  | JNull
  | JBool bool
  | JNum real
  | JStr string
  | JArr "jsval list"
  | JObj "(string \<times> jsval) list"

text \<open>ToBoolean: what \<open>x || y\<close>, \<open>!x\<close> and \<open>if (x)\<close> test.\<close>

fun truthy :: "jsval \<Rightarrow> bool" where
  "truthy JUndefined = False"
| "truthy JNull = False"
| "truthy (JBool b) = b"
| "truthy (JNum r) = (r \<noteq> 0)"
| "truthy (JStr s) = (s \<noteq> [])"
| "truthy (JArr xs) = True"
| "truthy (JObj kvs) = True"

text \<open>
  The own property \<open>k\<close> of a value, as object spread \<open>{...v}\<close> copies it. Arrays and
  strings own index keys only and the other primitives own nothing; the function is used
  at the four configuration keys, none of which is an index.
\<close>

fun own_prop :: "jsval \<Rightarrow> string \<Rightarrow> jsval option" where
  "own_prop (JObj kvs) k = map_of kvs k"
| "own_prop v k = None"

section \<open>lib/modelRegistry.ts\<close>

datatype Provider = OpenAI | Gemini | Anthropic

datatype ApiVendor = OpenAI_API | Google_API | Anthropic_API

text \<open>The string a provider is at run time: \<open>"openai" | "gemini" | "anthropic"\<close>.\<close>

fun provider_name :: "Provider \<Rightarrow> string" where
  "provider_name OpenAI = ''openai''"
| "provider_name Gemini = ''gemini''"
| "provider_name Anthropic = ''anthropic''"

fun getApiVendor :: "Provider \<Rightarrow> ApiVendor" where
  "getApiVendor Gemini = Google_API"
| "getApiVendor OpenAI = OpenAI_API"
| "getApiVendor Anthropic = Anthropic_API"

datatype Kind = Text | Image

record Capabilities =
  inputImage :: "bool option"
  outputImage :: "bool option"

record ModelOption =
  id_opt :: string
  label :: string
  provider :: Provider
  kind :: Kind
  enabled :: bool
  notes_opt :: "string option"
  apiModel :: "string option"
  capabilities :: "Capabilities option"

text \<open>
  \<open>EngineConfig\<close> has one shape and two readings: the declared one, with a provider
  and a model id in each slot, and the run-time one, where a slot of an object that came
  from outside holds any JavaScript value.
\<close>

record ('p, 'm) EngineConfig =
  textProvider :: 'p
  textModel :: 'm
  imageProvider :: 'p
  imageModel :: 'm

definition defaultConfig :: "(Provider, string) EngineConfig" where
  "defaultConfig =
     \<lparr> textProvider = OpenAI, textModel = ''gpt-4.1-mini'',
       imageProvider = OpenAI, imageModel = ''gpt-image-1-mini'' \<rparr>"

definition TEXT_MODELS :: "ModelOption list" where
  "TEXT_MODELS =
     [ \<lparr> id_opt = ''gpt-5.2'', label = ''ChatGPT 5.2'', provider = OpenAI, kind = Text,
         enabled = True, notes_opt = None, apiModel = None,
         capabilities = Some \<lparr> inputImage = Some True, outputImage = None \<rparr> \<rparr>,
       \<lparr> id_opt = ''gpt-5.1'', label = ''ChatGPT 5.1'', provider = OpenAI, kind = Text,
         enabled = True, notes_opt = None, apiModel = None,
         capabilities = Some \<lparr> inputImage = Some True, outputImage = None \<rparr> \<rparr>,
       \<lparr> id_opt = ''gpt-4.1-mini'', label = ''ChatGPT 4.1 mini'', provider = OpenAI, kind = Text,
         enabled = True, notes_opt = None, apiModel = None,
         capabilities = Some \<lparr> inputImage = Some True, outputImage = None \<rparr> \<rparr>,
       \<lparr> id_opt = ''gemini-2.5-pro'', label = ''Gemini 2.5 Pro'', provider = Gemini, kind = Text,
         enabled = True, notes_opt = None, apiModel = None,
         capabilities = Some \<lparr> inputImage = Some True, outputImage = None \<rparr> \<rparr>,
       \<lparr> id_opt = ''gemini-2.5-flash'', label = ''Gemini 2.5 Flash'', provider = Gemini, kind = Text,
         enabled = True, notes_opt = None, apiModel = None,
         capabilities = Some \<lparr> inputImage = Some True, outputImage = None \<rparr> \<rparr>,
       \<lparr> id_opt = ''claude-sonnet'', label = ''Claude Sonnet'', provider = Anthropic, kind = Text,
         enabled = True, notes_opt = None, apiModel = Some ''claude-3-5-sonnet-latest'',
         capabilities = Some \<lparr> inputImage = Some False, outputImage = None \<rparr> \<rparr>,
       \<lparr> id_opt = ''claude-haiku'', label = ''Claude Haiku'', provider = Anthropic, kind = Text,
         enabled = True, notes_opt = None, apiModel = Some ''claude-3-5-haiku-latest'',
         capabilities = Some \<lparr> inputImage = Some False, outputImage = None \<rparr> \<rparr> ]"

definition IMAGE_MODELS :: "ModelOption list" where
  "IMAGE_MODELS =
     [ \<lparr> id_opt = ''gpt-image-1-mini'', label = ''OpenAI gpt-image-1-mini'', provider = OpenAI,
         kind = Image, enabled = True, notes_opt = None, apiModel = None,
         capabilities = Some \<lparr> inputImage = Some True, outputImage = Some True \<rparr> \<rparr>,
       \<lparr> id_opt = ''gpt-image-1'', label = ''OpenAI gpt-image-1'', provider = OpenAI,
         kind = Image, enabled = True, notes_opt = None, apiModel = None,
         capabilities = Some \<lparr> inputImage = Some True, outputImage = Some True \<rparr> \<rparr>,
       \<lparr> id_opt = ''gemini-2.5-flash-image'', label = ''Gemini 2.5 Flash Image (Nano Banana)'',
         provider = Gemini, kind = Image, enabled = True, notes_opt = None, apiModel = None,
         capabilities = Some \<lparr> inputImage = Some True, outputImage = Some True \<rparr> \<rparr> ]"

text \<open>
  \<open>m.provider === provider && m.id === model && m.enabled\<close>: strict equality of the
  catalog's strings with whatever value the slot holds.
\<close>

definition isValidTextModel :: "jsval \<Rightarrow> jsval \<Rightarrow> bool" where
  "isValidTextModel p model =
     list_ex (\<lambda>m. JStr (provider_name (provider m)) = p \<and> JStr (id_opt m) = model \<and> enabled m)
       TEXT_MODELS"

definition isValidImageModel :: "jsval \<Rightarrow> jsval \<Rightarrow> bool" where
  "isValidImageModel p model =
     list_ex (\<lambda>m. JStr (provider_name (provider m)) = p \<and> JStr (id_opt m) = model \<and> enabled m)
       IMAGE_MODELS"

text \<open>\<open>found?.apiModel || id\<close>: an absent or empty override falls back to the id.\<close>

definition resolveApiModel :: "Provider \<Rightarrow> Kind \<Rightarrow> string \<Rightarrow> string" where
  "resolveApiModel p k i =
     (let list = (if k = Text then TEXT_MODELS else IMAGE_MODELS);
          found = find (\<lambda>m. enabled m \<and> provider m = p \<and> kind m = k \<and> id_opt m = i) list
      in case found of
           None \<Rightarrow> i
         | Some m \<Rightarrow> (case apiModel m of None \<Rightarrow> i | Some a \<Rightarrow> if a \<noteq> [] then a else i))"

definition getModelOption :: "Provider \<Rightarrow> Kind \<Rightarrow> string \<Rightarrow> ModelOption option" where
  "getModelOption p k i =
     (let list = (if k = Text then TEXT_MODELS else IMAGE_MODELS)
      in find (\<lambda>m. enabled m \<and> provider m = p \<and> kind m = k \<and> id_opt m = i) list)"

text \<open>
  \<open>{ ...defaultConfig, ...(input || {}) }\<close>: each slot is the input's own property when
  it has one (whatever its value, \<open>null\<close> and \<open>undefined\<close> included) and the default
  otherwise. Own properties of the input under other names are copied along by the spread
  and never read; the record does not carry them.
\<close>

definition slot :: "jsval \<Rightarrow> string \<Rightarrow> jsval \<Rightarrow> jsval" where
  "slot src k d = (case own_prop src k of Some v \<Rightarrow> v | None \<Rightarrow> d)"

definition normalizeEngineConfig :: "jsval \<Rightarrow> (jsval, jsval) EngineConfig" where
  "normalizeEngineConfig input =
     (let dtp = JStr (provider_name (textProvider defaultConfig));
          dtm = JStr (textModel defaultConfig);
          dip = JStr (provider_name (imageProvider defaultConfig));
          dim = JStr (imageModel defaultConfig);
          src = (if truthy input then input else JObj []);
          merged = \<lparr> textProvider = slot src ''textProvider'' dtp,
                     textModel = slot src ''textModel'' dtm,
                     imageProvider = slot src ''imageProvider'' dip,
                     imageModel = slot src ''imageModel'' dim \<rparr>;
          merged = (if \<not> isValidTextModel (textProvider merged) (textModel merged)
                    then merged\<lparr> textProvider := dtp, textModel := dtm \<rparr> else merged);
          merged = (if imageProvider merged = JStr ''anthropic''
                    then merged\<lparr> imageProvider := dip, imageModel := dim \<rparr> else merged);
          merged = (if \<not> isValidImageModel (imageProvider merged) (imageModel merged)
                    then merged\<lparr> imageProvider := dip, imageModel := dim \<rparr> else merged)
      in merged)"

text \<open>A configuration as the object it is at run time.\<close>

definition config_object :: "(jsval, jsval) EngineConfig \<Rightarrow> jsval" where
  "config_object c =
     JObj [ (''textProvider'', textProvider c), (''textModel'', textModel c),
            (''imageProvider'', imageProvider c), (''imageModel'', imageModel c) ]"

definition js_config :: "(Provider, string) EngineConfig \<Rightarrow> (jsval, jsval) EngineConfig" where
  "js_config c =
     \<lparr> textProvider = JStr (provider_name (textProvider c)), textModel = JStr (textModel c),
       imageProvider = JStr (provider_name (imageProvider c)), imageModel = JStr (imageModel c) \<rparr>"

section \<open>lib/costing.ts\<close>

text \<open>
  Token counts and prices are JavaScript numbers; the model computes with exact reals
  and keeps \<open>NaN\<close> apart, which is all of the non-finite arithmetic the pricing code
  can reach from finite counts.
\<close>

record TokenUsage =
  usage_input :: real
  usage_output :: real
  usage_total :: real

datatype jsnum = Num real | NaN

fun js_add :: "jsnum \<Rightarrow> jsnum \<Rightarrow> jsnum" where
  "js_add (Num a) (Num b) = Num (a + b)"
| "js_add x y = NaN"

definition PER_M :: real where
  "PER_M = 1000000"

text \<open>
  \<open>Math.round(n * 1e6) / 1e6\<close>; \<open>Math.round\<close> takes the nearest integer and moves a
  tie towards plus infinity.
\<close>

definition usd :: "real \<Rightarrow> real" where
  "usd n = of_int \<lfloor>n * 1000000 + 1 / 2\<rfloor> / 1000000"

text \<open>
  Reading \<open>table[key]\<close> from an object literal finds an own property, or else whatever
  \<open>Object.prototype\<close> has under that name, or else \<open>undefined\<close>. Every inherited value
  is a function or an object: truthy, and without any of the price fields.
\<close>

datatype 'a lookup = Absent | Own 'a | Inherited

definition object_prototype_keys :: "string list" where
  "object_prototype_keys =
     [ ''constructor'', ''hasOwnProperty'', ''isPrototypeOf'', ''propertyIsEnumerable'',
       ''toLocaleString'', ''toString'', ''valueOf'', ''__proto__'',
       ''__defineGetter__'', ''__defineSetter__'', ''__lookupGetter__'', ''__lookupSetter__'' ]"

definition get_prop :: "(string \<times> 'a) list \<Rightarrow> string \<Rightarrow> 'a lookup" where
  "get_prop table k =
     (case map_of table k of
        Some v \<Rightarrow> Own v
      | None \<Rightarrow> if k \<in> set object_prototype_keys then Inherited else Absent)"

record Rate =
  inputPerM :: real
  outputPerM :: real

fun TEXT_RATES :: "ApiVendor \<Rightarrow> (string \<times> Rate) list" where
  "TEXT_RATES OpenAI_API =
     [ (''gpt-5.2'', \<lparr> inputPerM = 35 / 10, outputPerM = 28 \<rparr>),
       (''gpt-5.1'', \<lparr> inputPerM = 25 / 10, outputPerM = 20 \<rparr>),
       (''gpt-4.1-mini'', \<lparr> inputPerM = 7 / 10, outputPerM = 28 / 10 \<rparr>) ]"
| "TEXT_RATES Google_API =
     [ (''gemini-2.5-pro'', \<lparr> inputPerM = 125 / 100, outputPerM = 10 \<rparr>),
       (''gemini-2.5-flash'', \<lparr> inputPerM = 30 / 100, outputPerM = 250 / 100 \<rparr>) ]"
| "TEXT_RATES Anthropic_API =
     [ (''claude-3-5-sonnet-latest'', \<lparr> inputPerM = 3, outputPerM = 15 \<rparr>),
       (''claude-3-5-haiku-latest'', \<lparr> inputPerM = 8 / 10, outputPerM = 4 \<rparr>) ]"

record ImagePrice =
  low :: "real option"
  medium :: "real option"
  high :: "real option"
  fixedPerImage :: "real option"

fun IMAGE_PER_IMAGE :: "ApiVendor \<Rightarrow> (string \<times> ImagePrice) list" where
  "IMAGE_PER_IMAGE OpenAI_API =
     [ (''gpt-image-1-mini'',
          \<lparr> low = Some (5 / 1000), medium = Some (11 / 1000), high = Some (36 / 1000),
            fixedPerImage = None \<rparr>),
       (''gpt-image-1'',
          \<lparr> low = Some (11 / 1000), medium = Some (42 / 1000), high = Some (167 / 1000),
            fixedPerImage = None \<rparr>) ]"
| "IMAGE_PER_IMAGE Google_API =
     [ (''gemini-2.5-flash-image'',
          \<lparr> low = None, medium = None, high = None, fixedPerImage = Some (39 / 1000) \<rparr>) ]"
| "IMAGE_PER_IMAGE Anthropic_API = []"

text \<open>
  \<open>const rate = TEXT_RATES[vendor]?.[apiModel]; if (!rate) return 0\<close>. An inherited
  value passes the test, its \<open>inputPerM\<close> and \<open>outputPerM\<close> are \<open>undefined\<close>, and the
  arithmetic on them is \<open>NaN\<close>, which \<open>usd\<close> leaves as it is.
\<close>

definition calcTextCostUsd :: "ApiVendor \<Rightarrow> string \<Rightarrow> TokenUsage \<Rightarrow> jsnum" where
  "calcTextCostUsd vendor model u =
     (case get_prop (TEXT_RATES vendor) model of
        Absent \<Rightarrow> Num 0
      | Inherited \<Rightarrow> NaN
      | Own rate \<Rightarrow>
          (let inCost = (usage_input u / PER_M) * inputPerM rate;
               outCost = (usage_output u / PER_M) * outputPerM rate
           in Num (usd (inCost + outCost))))"

datatype Quality = Low | Medium | High

fun tier :: "Quality \<Rightarrow> ImagePrice \<Rightarrow> real option" where
  "tier Low t = low t"
| "tier Medium t = medium t"
| "tier High t = high t"

text \<open>
  The parameter object \<open>{ vendor, apiModel, imageCount, quality = "low", usage }\<close>, one
  argument for each property; an absent \<open>quality\<close> or \<open>usage\<close> is \<open>None\<close>. On an
  inherited table every price read is \<open>undefined\<close>, so the \<open>??\<close> chain ends at 0.
\<close>

definition calcImageCostUsd ::
    "ApiVendor \<Rightarrow> string \<Rightarrow> real \<Rightarrow> Quality option \<Rightarrow> TokenUsage option \<Rightarrow> jsnum" where
  "calcImageCostUsd vendor model imageCount quality_opt usage_opt =
     (let quality = (case quality_opt of None \<Rightarrow> Low | Some q \<Rightarrow> q)
      in if vendor = OpenAI_API then
           (let per = (case get_prop (IMAGE_PER_IMAGE OpenAI_API) model of
                         Own t \<Rightarrow> (case tier quality t of
                                     Some x \<Rightarrow> x
                                   | None \<Rightarrow> (case low t of Some x \<Rightarrow> x | None \<Rightarrow> 0))
                       | Inherited \<Rightarrow> 0
                       | Absent \<Rightarrow> 0)
            in Num (usd (per * imageCount)))
         else if vendor = Google_API then
           (let perOut = (case get_prop (IMAGE_PER_IMAGE Google_API) model of
                            Own t \<Rightarrow> (case fixedPerImage t of Some x \<Rightarrow> x | None \<Rightarrow> 0)
                          | Inherited \<Rightarrow> 0
                          | Absent \<Rightarrow> 0);
                inputRate = (case get_prop (TEXT_RATES Google_API) ''gemini-2.5-flash'' of
                               Own r \<Rightarrow> inputPerM r
                             | Inherited \<Rightarrow> 30 / 100
                             | Absent \<Rightarrow> 30 / 100);
                inTok = (case usage_opt of None \<Rightarrow> 0 | Some u \<Rightarrow> usage_input u);
                inCost = (inTok / PER_M) * inputRate
            in Num (usd (inCost + perOut * imageCount)))
         else Num 0)"

section \<open>JSON.parse\<close>

text \<open>
  The platform's \<open>JSON.parse\<close> on a string, after the JSON grammar of ECMA-404:
  \<open>None\<close> is the thrown \<open>SyntaxError\<close>. A repeated key keeps its first place and
  takes the last value. A \<open>\u\<close> escape stands for the UTF-8 bytes of its code unit.
  The recursion carries fuel: \<open>parse_elements\<close> and \<open>parse_members\<close> hand their text
  to \<open>parse_value\<close> unread, and \<open>parse_value\<close> reads a character before any nested
  call, so two units for each character of the text are never used up.
\<close>

definition is_json_ws :: "char \<Rightarrow> bool" where
  "is_json_ws c = (c = CHR '' '' \<or> c = CHR 0x09 \<or> c = CHR 0x0A \<or> c = CHR 0x0D)"

definition skip_ws :: "string \<Rightarrow> string" where
  "skip_ws s = dropWhile is_json_ws s"

definition is_digit :: "char \<Rightarrow> bool" where
  "is_digit c = (48 \<le> (of_char c :: nat) \<and> (of_char c :: nat) \<le> 57)"

definition digits_value :: "string \<Rightarrow> nat" where
  "digits_value ds = foldl (\<lambda>a c. 10 * a + (of_char c - 48)) 0 ds"

definition hex_digit :: "char \<Rightarrow> nat option" where
  "hex_digit c =
     (let n = (of_char c :: nat)
      in if 48 \<le> n \<and> n \<le> 57 then Some (n - 48)
         else if 97 \<le> n \<and> n \<le> 102 then Some (n - 87)
         else if 65 \<le> n \<and> n \<le> 70 then Some (n - 55)
         else None)"

definition simple_escape :: "char \<Rightarrow> char option" where
  "simple_escape c =
     (if c = CHR 0x22 then Some (CHR 0x22)
      else if c = CHR 0x5C then Some (CHR 0x5C)
      else if c = CHR ''/'' then Some (CHR ''/'')
      else if c = CHR ''b'' then Some (CHR 0x08)
      else if c = CHR ''f'' then Some (CHR 0x0C)
      else if c = CHR ''n'' then Some (CHR 0x0A)
      else if c = CHR ''r'' then Some (CHR 0x0D)
      else if c = CHR ''t'' then Some (CHR 0x09)
      else None)"

text \<open>The UTF-8 bytes of a 16-bit code unit.\<close>

definition utf8 :: "nat \<Rightarrow> string" where
  "utf8 n =
     (if n < 128 then [char_of n]
      else if n < 2048 then [char_of (192 + n div 64), char_of (128 + n mod 64)]
      else [char_of (224 + n div 4096), char_of (128 + (n div 64) mod 64), char_of (128 + n mod 64)])"

text \<open>The characters of a string literal after its opening quote, and the rest.\<close>

fun parse_chars :: "string \<Rightarrow> (string \<times> string) option" where
  "parse_chars [] = None"
| "parse_chars (c # cs) =
     (if c = CHR 0x22 then Some ([], cs)
      else if c = CHR 0x5C then
        (case cs of
           [] \<Rightarrow> None
         | e # r \<Rightarrow>
             if e = CHR ''u'' then
               (case r of
                  h1 # h2 # h3 # h4 # r' \<Rightarrow>
                    (case (hex_digit h1, hex_digit h2, hex_digit h3, hex_digit h4) of
                       (Some a, Some b, Some c', Some d) \<Rightarrow>
                         (case parse_chars r' of
                            None \<Rightarrow> None
                          | Some (s, rest) \<Rightarrow>
                              Some (utf8 (((a * 16 + b) * 16 + c') * 16 + d) @ s, rest))
                     | _ \<Rightarrow> None)
                | _ \<Rightarrow> None)
             else
               (case simple_escape e of
                  None \<Rightarrow> None
                | Some x \<Rightarrow>
                    (case parse_chars r of
                       None \<Rightarrow> None
                     | Some (s, rest) \<Rightarrow> Some (x # s, rest))))
      else if (of_char c :: nat) < 32 then None
      else
        (case parse_chars cs of
           None \<Rightarrow> None
         | Some (s, rest) \<Rightarrow> Some (c # s, rest)))"

text \<open>
  A number: \<open>-? (0 | [1-9][0-9]*) (. [0-9]+)? ([eE] [+-]? [0-9]+)?\<close>, with its exact
  decimal value.
\<close>

definition parse_number :: "string \<Rightarrow> (real \<times> string) option" where
  "parse_number s =
     (let neg = (s \<noteq> [] \<and> hd s = CHR ''-'');
          s1 = (if neg then tl s else s);
          ip = takeWhile is_digit s1;
          s2 = dropWhile is_digit s1;
          has_frac = (s2 \<noteq> [] \<and> hd s2 = CHR ''.'');
          fp = (if has_frac then takeWhile is_digit (tl s2) else []);
          s3 = (if has_frac then dropWhile is_digit (tl s2) else s2);
          has_exp = (s3 \<noteq> [] \<and> (hd s3 = CHR ''e'' \<or> hd s3 = CHR ''E''));
          s4 = (if has_exp then tl s3 else s3);
          exp_neg = (has_exp \<and> s4 \<noteq> [] \<and> hd s4 = CHR ''-'');
          s5 = (if has_exp \<and> s4 \<noteq> [] \<and> (hd s4 = CHR ''-'' \<or> hd s4 = CHR ''+'')
                then tl s4 else s4);
          ep = (if has_exp then takeWhile is_digit s5 else []);
          s6 = (if has_exp then dropWhile is_digit s5 else s5);
          mant = real (digits_value ip) + real (digits_value fp) / 10 ^ length fp;
          scaled = (if exp_neg then mant / 10 ^ digits_value ep else mant * 10 ^ digits_value ep)
      in if ip = [] \<or> (length ip > 1 \<and> hd ip = CHR ''0'') then None
         else if has_frac \<and> fp = [] then None
         else if has_exp \<and> ep = [] then None
         else Some (if neg then - scaled else scaled, s6))"

text \<open>\<open>obj[k] = v\<close> on the own properties of an object under construction.\<close>

fun obj_put :: "(string \<times> jsval) list \<Rightarrow> string \<Rightarrow> jsval \<Rightarrow> (string \<times> jsval) list" where
  "obj_put [] k v = [(k, v)]"
| "obj_put ((k', v') # kvs) k v =
     (if k' = k then (k, v) # kvs else (k', v') # obj_put kvs k v)"

fun parse_value :: "nat \<Rightarrow> string \<Rightarrow> (jsval \<times> string) option"
and parse_elements :: "nat \<Rightarrow> jsval list \<Rightarrow> string \<Rightarrow> (jsval \<times> string) option"
and parse_members :: "nat \<Rightarrow> (string \<times> jsval) list \<Rightarrow> string \<Rightarrow> (jsval \<times> string) option"
where
  "parse_value 0 s = None"
| "parse_value (Suc n) s =
     (case s of
        [] \<Rightarrow> None
      | c # r \<Rightarrow>
          if c = CHR ''{'' then
            (case skip_ws r of
               [] \<Rightarrow> None
             | c' # r' \<Rightarrow> if c' = CHR ''}'' then Some (JObj [], r')
                          else parse_members n [] (c' # r'))
          else if c = CHR ''['' then
            (case skip_ws r of
               [] \<Rightarrow> None
             | c' # r' \<Rightarrow> if c' = CHR '']'' then Some (JArr [], r')
                          else parse_elements n [] (c' # r'))
          else if c = CHR 0x22 then
            (case parse_chars r of None \<Rightarrow> None | Some (str, rest) \<Rightarrow> Some (JStr str, rest))
          else if take 4 s = ''true'' then Some (JBool True, drop 4 s)
          else if take 5 s = ''false'' then Some (JBool False, drop 5 s)
          else if take 4 s = ''null'' then Some (JNull, drop 4 s)
          else (case parse_number s of None \<Rightarrow> None | Some (x, rest) \<Rightarrow> Some (JNum x, rest)))"
| "parse_elements 0 acc s = None"
| "parse_elements (Suc n) acc s =
     (case parse_value n s of
        None \<Rightarrow> None
      | Some (v, r) \<Rightarrow>
          (case skip_ws r of
             [] \<Rightarrow> None
           | c # r' \<Rightarrow>
               if c = CHR '','' then parse_elements n (acc @ [v]) (skip_ws r')
               else if c = CHR '']'' then Some (JArr (acc @ [v]), r')
               else None))"
| "parse_members 0 acc s = None"
| "parse_members (Suc n) acc s =
     (case s of
        [] \<Rightarrow> None
      | q # r \<Rightarrow>
          if q \<noteq> CHR 0x22 then None
          else
            (case parse_chars r of
               None \<Rightarrow> None
             | Some (k, r1) \<Rightarrow>
                 (case skip_ws r1 of
                    [] \<Rightarrow> None
                  | c # r2 \<Rightarrow>
                      if c \<noteq> CHR '':'' then None
                      else
                        (case parse_value n (skip_ws r2) of
                           None \<Rightarrow> None
                         | Some (v, r3) \<Rightarrow>
                             (case skip_ws r3 of
                                [] \<Rightarrow> None
                              | c' # r4 \<Rightarrow>
                                  if c' = CHR '','' then parse_members n (obj_put acc k v) (skip_ws r4)
                                  else if c' = CHR ''}'' then Some (JObj (obj_put acc k v), r4)
                                  else None)))))"

fun fuel :: "string \<Rightarrow> nat" where
  "fuel [] = Suc (Suc 0)"
| "fuel (c # cs) = Suc (Suc (fuel cs))"

definition JSON_parse :: "string \<Rightarrow> jsval option" where
  "JSON_parse text =
     (case parse_value (fuel text) (skip_ws text) of
        None \<Rightarrow> None
      | Some (v, rest) \<Rightarrow> if skip_ws rest = [] then Some v else None)"

section \<open>app/api/generate/route.ts\<close>

subsection \<open>Errors and responses\<close>

text \<open>
  One constructor for each message the handler can produce; the vendor's raw error body
  is carried where the message embeds it.
  \<^item> \<open>TitleRequired\<close>, \<open>ImageRequired\<close>: the two validation messages;
  \<^item> \<open>KeyNotSet v\<close>: "OPENAI_API_KEY / GEMINI_API_KEY / ANTHROPIC_API_KEY is not set";
  \<^item> \<open>AnthropicNoImage\<close>: "Anthropic does not support image generation/editing";
  \<^item> \<open>VisionKeyRequired\<close>: with Claude as text engine the vision analysis needs
    OPENAI_API_KEY or GEMINI_API_KEY;
  \<^item> \<open>DataUrlParseFailed\<close>, \<open>ImageParseFailed\<close>, \<open>GeminiImageParseFailed\<close>;
  \<^item> \<open>TextCallFailed v body\<close>, \<open>ImageCallFailed v body\<close>: a response that is not ok;
  \<^item> \<open>Thrown m\<close>: any other exception, with the message the handler reports for it.
\<close>

datatype ErrMsg =
    TitleRequired
  | ImageRequired
  | KeyNotSet ApiVendor
  | AnthropicNoImage
  | VisionKeyRequired
  | DataUrlParseFailed
  | TextCallFailed ApiVendor string
  | ImageCallFailed ApiVendor string
  | ImageParseFailed
  | GeminiImageParseFailed string
  | Thrown string

record GenResult =
  concept_used :: string
  image_base64 :: string

datatype Response = ResultJson GenResult | ErrorJson ErrMsg nat

fun bad :: "ErrMsg \<Rightarrow> nat \<Rightarrow> Response" where
  "bad msg status = ErrorJson msg status"

subsection \<open>String helpers of the platform\<close>

text \<open>
  \<open>String.prototype.trim\<close> removes white space and line terminators from both ends.
  In UTF-8 these are the six ASCII ones, U+00A0 (C2 A0) and the three-byte encodings of
  U+1680, U+2000 to U+200A, U+2028, U+2029, U+202F, U+205F, U+3000 and U+FEFF.
\<close>

definition is_space :: "nat \<Rightarrow> bool" where
  "is_space n = (n = 9 \<or> n = 10 \<or> n = 11 \<or> n = 12 \<or> n = 13 \<or> n = 32)"

definition is_space3 :: "nat \<Rightarrow> nat \<Rightarrow> nat \<Rightarrow> bool" where
  "is_space3 x y z =
     ((x = 0xE1 \<and> y = 0x9A \<and> z = 0x80)
      \<or> (x = 0xE2 \<and> y = 0x80 \<and> 0x80 \<le> z \<and> z \<le> 0x8A)
      \<or> (x = 0xE2 \<and> y = 0x80 \<and> (z = 0xA8 \<or> z = 0xA9 \<or> z = 0xAF))
      \<or> (x = 0xE2 \<and> y = 0x81 \<and> z = 0x9F)
      \<or> (x = 0xE3 \<and> y = 0x80 \<and> z = 0x80)
      \<or> (x = 0xEF \<and> y = 0xBB \<and> z = 0xBF))"

fun trim_start :: "string \<Rightarrow> string" where
  "trim_start [] = []"
| "trim_start [c] = (if is_space (of_char c) then [] else [c])"
| "trim_start [c, a] =
     (if is_space (of_char c) then trim_start [a]
      else if of_char c = (0xC2 :: nat) \<and> of_char a = (0xA0 :: nat) then []
      else [c, a])"
| "trim_start (c # a # b # r) =
     (if is_space (of_char c) then trim_start (a # b # r)
      else if of_char c = (0xC2 :: nat) \<and> of_char a = (0xA0 :: nat) then trim_start (b # r)
      else if is_space3 (of_char c) (of_char a) (of_char b) then trim_start r
      else c # a # b # r)"

text \<open>The same from the end, on the reversed string: the bytes of a character come last first.\<close>

fun trim_end_rev :: "string \<Rightarrow> string" where
  "trim_end_rev [] = []"
| "trim_end_rev [c] = (if is_space (of_char c) then [] else [c])"
| "trim_end_rev [c, a] =
     (if is_space (of_char c) then trim_end_rev [a]
      else if of_char c = (0xA0 :: nat) \<and> of_char a = (0xC2 :: nat) then []
      else [c, a])"
| "trim_end_rev (c # a # b # r) =
     (if is_space (of_char c) then trim_end_rev (a # b # r)
      else if of_char c = (0xA0 :: nat) \<and> of_char a = (0xC2 :: nat) then trim_end_rev (b # r)
      else if is_space3 (of_char b) (of_char a) (of_char c) then trim_end_rev r
      else c # a # b # r)"

definition js_trim :: "string \<Rightarrow> string" where
  "js_trim s = rev (trim_end_rev (rev (trim_start s)))"

text \<open>
  \<open>String(v)\<close> and the conversion a template literal or \<open>join\<close> applies. A parsed
  object is never callable, so an own \<open>toString\<close> property leaves the conversion nothing
  to call and it throws a \<open>TypeError\<close>. Number formatting is the platform's and is a
  parameter.
\<close>

fun js_String :: "(real \<Rightarrow> string) \<Rightarrow> jsval \<Rightarrow> ErrMsg + string"
and js_join :: "(real \<Rightarrow> string) \<Rightarrow> string \<Rightarrow> jsval list \<Rightarrow> ErrMsg + string"
where
  "js_String ns JUndefined = Inr ''undefined''"
| "js_String ns JNull = Inr ''null''"
| "js_String ns (JBool b) = Inr (if b then ''true'' else ''false'')"
| "js_String ns (JNum r) = Inr (ns r)"
| "js_String ns (JStr s) = Inr s"
| "js_String ns (JArr xs) = js_join ns '','' xs"
| "js_String ns (JObj kvs) =
     (if map_of kvs ''toString'' \<noteq> None
      then Inl (Thrown ''Cannot convert object to primitive value'')
      else Inr ''[object Object]'')"
| "js_join ns sep [] = Inr []"
| "js_join ns sep (x # xs) =
     (case (if x = JUndefined \<or> x = JNull then Inr [] else js_String ns x) of
        Inl e \<Rightarrow> Inl e
      | Inr s \<Rightarrow>
          if xs = [] then Inr s
          else (case js_join ns sep xs of Inl e \<Rightarrow> Inl e | Inr r \<Rightarrow> Inr (s @ sep @ r)))"

text \<open>
  \<open>v?.k\<close> for the property names the handler reads from parsed replies; none of them
  exists on a prototype, so only an object's own property can answer.
\<close>

fun js_get :: "jsval \<Rightarrow> string \<Rightarrow> jsval" where
  "js_get (JObj kvs) k = (case map_of kvs k of Some v \<Rightarrow> v | None \<Rightarrow> JUndefined)"
| "js_get v k = JUndefined"

text \<open>\<open>a ?? b\<close>.\<close>

definition nullish :: "jsval \<Rightarrow> jsval \<Rightarrow> jsval" where
  "nullish a b = (if a = JNull \<or> a = JUndefined then b else a)"

subsection \<open>Data URLs and safe JSON\<close>

text \<open>A line terminator, which \<open>.\<close> in a regular expression does not match.\<close>

fun has_line_break :: "string \<Rightarrow> bool" where
  "has_line_break [] = False"
| "has_line_break (c # cs) =
     (c = CHR 0x0A \<or> c = CHR 0x0D
      \<or> (c = CHR 0xE2 \<and> (take 2 cs = [CHR 0x80, CHR 0xA8] \<or> take 2 cs = [CHR 0x80, CHR 0xA9]))
      \<or> has_line_break cs)"

text \<open>
  \<open>/^data:([^;]+);base64,(.+)$/\<close>: the first group stops at the first semicolon,
  which must open \<open>;base64,\<close>; the payload is not empty and has no line break.
\<close>

definition parseDataUrl :: "string \<Rightarrow> ErrMsg + (string \<times> string)" where
  "parseDataUrl dataUrl =
     (let rest = drop 5 dataUrl;
          mime = takeWhile (\<lambda>c. c \<noteq> CHR '';'') rest;
          tail = dropWhile (\<lambda>c. c \<noteq> CHR '';'') rest;
          b64 = drop 8 tail
      in if take 5 dataUrl = ''data:'' \<and> mime \<noteq> [] \<and> take 8 tail = '';base64,'' \<and> b64 \<noteq> []
            \<and> \<not> has_line_break b64
         then Inr (mime, b64)
         else Inl DataUrlParseFailed)"

text \<open>
  \<open>text.match(/\{[\s\S]*\}/)\<close>: from the first opening brace to the last closing brace
  after it.
\<close>

definition match_braces :: "string \<Rightarrow> string option" where
  "match_braces text =
     (let from_open = dropWhile (\<lambda>c. c \<noteq> CHR ''{'') text;
          m = rev (dropWhile (\<lambda>c. c \<noteq> CHR ''}'') (rev from_open))
      in if m = [] then None else Some m)"

definition safeParseJson :: "string \<Rightarrow> jsval" where
  "safeParseJson text =
     (case JSON_parse text of
        Some v \<Rightarrow> v
      | None \<Rightarrow>
          (case match_braces text of
             None \<Rightarrow> JNull
           | Some m \<Rightarrow> (case JSON_parse m of Some v \<Rightarrow> v | None \<Rightarrow> JNull)))"

subsection \<open>The request, the environment, the store\<close>

record File =
  file_type :: string
  file_base64 :: string

text \<open>
  \<open>file_base64\<close> is the content as \<open>Buffer.toString("base64")\<close> renders it; it is
  empty exactly for an empty file. \<open>form.get(name)\<close> is \<open>null\<close>, a string or a file.
\<close>

datatype FormDataEntry = NoEntry | TextEntry string | FileEntry File

record FormData =
  form_image :: FormDataEntry
  form_title :: FormDataEntry
  form_concept :: FormDataEntry
  form_engineConfig :: FormDataEntry

text \<open>\<open>req.formData()\<close> resolves to the form or rejects with an error.\<close>

datatype Request = Unreadable string | Multipart FormData

text \<open>\<open>String(form.get(name) || dflt)\<close>.\<close>

fun form_text :: "FormDataEntry \<Rightarrow> string \<Rightarrow> string" where
  "form_text NoEntry dflt = dflt"
| "form_text (TextEntry s) dflt = (if s = [] then dflt else s)"
| "form_text (FileEntry f) dflt = ''[object File]''"

record TextResult =
  result_text :: string
  result_usage :: TokenUsage

text \<open>
  What one vendor call comes to. For a text call: the fetch or the decoding of the body
  throws; the status is not ok, with the raw body; or the adapter's reading of the body,
  its text and token usage. For an image call the reading is the image payload when the
  body has one, the text parts of the body, and the usage counters.
\<close>

datatype TextReply = TextRejected string | TextHttpError string | TextHttpOk TextResult

record ImagePayload =
  payload_b64 :: "string option"
  payload_text :: string
  payload_usage :: TokenUsage

datatype ImageReply = ImageRejected string | ImageHttpError string | ImageHttpOk ImagePayload

record ImageResult =
  image_b64 :: string
  image_usage :: "TokenUsage option"

text \<open>
  The environment of one request: the three credentials, the two clock readings, what
  the vendors answer at each stage, and the platform's number formatting.
\<close>

record Env =
  OPENAI_API_KEY :: "string option"
  GEMINI_API_KEY :: "string option"
  ANTHROPIC_API_KEY :: "string option"
  started_at :: int
  finished_at :: int
  vision_reply :: TextReply
  concept_reply :: TextReply
  image_reply :: ImageReply
  number_toString :: "real \<Rightarrow> string"

text \<open>\<open>if (key)\<close>: set and not empty.\<close>

definition present :: "string option \<Rightarrow> bool" where
  "present k = (case k of None \<Rightarrow> False | Some s \<Rightarrow> s \<noteq> [])"

datatype Stage = VISION | CONCEPT | IMAGE_EDIT

record RequestLog =
  log_title :: string
  log_userConcept :: "string option"
  log_conceptUsed :: "string option"
  log_textProvider :: Provider
  log_textModel :: string
  log_imageProvider :: Provider
  log_imageModel :: string
  log_success :: bool
  log_errorMessage :: "ErrMsg option"
  log_totalCostUsd :: jsnum
  log_latencyMs :: int

record RequestCostLineItem =
  item_requestId :: nat
  item_stage :: Stage
  item_provider :: Provider
  item_model :: string
  item_inputTokens :: "real option"
  item_outputTokens :: "real option"
  item_totalTokens :: "real option"
  item_imageSize :: "nat option"
  item_imageCount :: "nat option"
  item_costUsd :: jsnum

text \<open>
  The two tables. A log row's id is its position, so a created row gets the next free
  one; the store itself does not fail.
\<close>

record Db =
  requestLog :: "RequestLog list"
  requestCostLineItem :: "RequestCostLineItem list"

text \<open>The prompts, as the values their templates interpolate.\<close>

datatype Prompt =
    VisionPrompt string
  | ConceptPrompt string jsval "string option"
  | FinalImagePrompt string string "string list"

datatype NetCall =
    TextCall ApiVendor string Prompt "string option"
  | ImageCall ApiVendor string Prompt File

record World =
  db :: Db
  calls :: "NetCall list"

definition requestLog_create :: "RequestLog \<Rightarrow> World \<Rightarrow> nat \<times> World" where
  "requestLog_create row w =
     (length (requestLog (db w)),
      w\<lparr> db := (db w)\<lparr> requestLog := requestLog (db w) @ [row] \<rparr> \<rparr>)"

definition requestLog_update :: "nat \<Rightarrow> (RequestLog \<Rightarrow> RequestLog) \<Rightarrow> World \<Rightarrow> World" where
  "requestLog_update i f w =
     w\<lparr> db := (db w)\<lparr> requestLog := (requestLog (db w))[i := f (requestLog (db w) ! i)] \<rparr> \<rparr>"

definition requestCostLineItem_create :: "RequestCostLineItem \<Rightarrow> World \<Rightarrow> World" where
  "requestCostLineItem_create item w =
     w\<lparr> db := (db w)\<lparr> requestCostLineItem := requestCostLineItem (db w) @ [item] \<rparr> \<rparr>"

definition fetch :: "NetCall \<Rightarrow> World \<Rightarrow> World" where
  "fetch c w = w\<lparr> calls := calls w @ [c] \<rparr>"

subsection \<open>Prompt builders\<close>

definition buildVisionPrompt :: "string \<Rightarrow> Prompt" where
  "buildVisionPrompt title = VisionPrompt title"

definition buildConceptPrompt :: "string \<Rightarrow> jsval \<Rightarrow> string option \<Rightarrow> Prompt" where
  "buildConceptPrompt title vision userConcept = ConceptPrompt title vision userConcept"

text \<open>
  The final prompt interpolates the joined immutable elements and eight properties of
  \<open>direction\<close>; each interpolation converts its value to a string and can throw.
\<close>

fun strings_of :: "(real \<Rightarrow> string) \<Rightarrow> jsval list \<Rightarrow> ErrMsg + string list" where
  "strings_of ns [] = Inr []"
| "strings_of ns (v # vs) =
     (case js_String ns v of
        Inl e \<Rightarrow> Inl e
      | Inr s' \<Rightarrow> (case strings_of ns vs of Inl e \<Rightarrow> Inl e | Inr ss \<Rightarrow> Inr (s' # ss)))"

definition buildFinalImagePrompt ::
    "(real \<Rightarrow> string) \<Rightarrow> string \<Rightarrow> jsval \<Rightarrow> jsval \<Rightarrow> ErrMsg + Prompt" where
  "buildFinalImagePrompt ns title vision direction =
     (let immutable = (case js_get vision ''immutable_elements'' of JArr xs \<Rightarrow> xs | _ \<Rightarrow> [])
      in case (if immutable \<noteq> []
               then (case js_join ns ''; '' immutable of
                       Inl e \<Rightarrow> Inl e
                     | Inr j \<Rightarrow> Inr (''- Immutable elements: '' @ j))
               else Inr [])
         of Inl e \<Rightarrow> Inl e
          | Inr immutableLine \<Rightarrow>
              (case strings_of ns
                      [ js_get direction ''product_description'', js_get direction ''background'',
                        js_get direction ''lighting_setup'', js_get direction ''lighting_purpose'',
                        js_get direction ''camera_angle'', js_get direction ''showcase_feature'',
                        js_get direction ''key_detail'', js_get direction ''aspect_ratio'' ]
               of Inl e \<Rightarrow> Inl e
                | Inr slots \<Rightarrow> Inr (FinalImagePrompt title immutableLine slots)))"

subsection \<open>Vendor adapters\<close>

definition text_outcome :: "ApiVendor \<Rightarrow> TextReply \<Rightarrow> ErrMsg + TextResult" where
  "text_outcome vendor reply =
     (case reply of
        TextRejected m \<Rightarrow> Inl (Thrown m)
      | TextHttpError body \<Rightarrow> Inl (TextCallFailed vendor body)
      | TextHttpOk r \<Rightarrow> Inr r)"

text \<open>
  \<open>callTextModel\<close>: the OpenAI branch posts at once; the Gemini and Anthropic branches
  first check their key and, when an image comes along, parse its data URL.
\<close>

definition callTextModel ::
    "TextReply \<Rightarrow> ApiVendor \<Rightarrow> string \<Rightarrow> Prompt \<Rightarrow> string option \<Rightarrow>
     string option \<Rightarrow> string option \<Rightarrow> string option \<Rightarrow> World \<Rightarrow> (ErrMsg + TextResult) \<times> World" where
  "callTextModel reply vendor model prompt dataUrl openaiKey geminiKey anthropicKey w =
     (case vendor of
        OpenAI_API \<Rightarrow>
          (text_outcome vendor reply, fetch (TextCall vendor model prompt dataUrl) w)
      | Google_API \<Rightarrow>
          if \<not> present geminiKey then (Inl (KeyNotSet Google_API), w)
          else (case (case dataUrl of None \<Rightarrow> Inr None
                                    | Some u \<Rightarrow> (case parseDataUrl u of Inl e \<Rightarrow> Inl e
                                                                    | Inr x \<Rightarrow> Inr (Some x)))
                of Inl e \<Rightarrow> (Inl e, w)
                 | Inr inline \<Rightarrow>
                     (text_outcome vendor reply, fetch (TextCall vendor model prompt dataUrl) w))
      | Anthropic_API \<Rightarrow>
          if \<not> present anthropicKey then (Inl (KeyNotSet Anthropic_API), w)
          else (case (case dataUrl of None \<Rightarrow> Inr None
                                    | Some u \<Rightarrow> (case parseDataUrl u of Inl e \<Rightarrow> Inl e
                                                                    | Inr x \<Rightarrow> Inr (Some x)))
                of Inl e \<Rightarrow> (Inl e, w)
                 | Inr inline \<Rightarrow>
                     (text_outcome vendor reply, fetch (TextCall vendor model prompt dataUrl) w)))"

text \<open>The Korean word for "none" that stands in for missing text parts, as UTF-8.\<close>

definition text_none :: string where
  "text_none = [CHR 0xEC, CHR 0x97, CHR 0x86, CHR 0xEC, CHR 0x9D, CHR 0x8C]"

text \<open>
  \<open>callImageEdit\<close>: OpenAI returns no usage and fails on a missing or empty
  \<open>b64_json\<close>; Gemini fails on a missing or empty inline payload, quoting the text parts
  (or the word for "none"); Anthropic always throws.
\<close>

definition callImageEdit ::
    "ImageReply \<Rightarrow> ApiVendor \<Rightarrow> string \<Rightarrow> Prompt \<Rightarrow> File \<Rightarrow>
     string option \<Rightarrow> string option \<Rightarrow> World \<Rightarrow> (ErrMsg + ImageResult) \<times> World" where
  "callImageEdit reply vendor model prompt file openaiKey geminiKey w =
     (case vendor of
        OpenAI_API \<Rightarrow>
          (case reply of
             ImageRejected m \<Rightarrow> Inl (Thrown m)
           | ImageHttpError body \<Rightarrow> Inl (ImageCallFailed vendor body)
           | ImageHttpOk p \<Rightarrow>
               (case payload_b64 p of
                  None \<Rightarrow> Inl ImageParseFailed
                | Some b \<Rightarrow> if b = [] then Inl ImageParseFailed
                            else Inr \<lparr> image_b64 = b, image_usage = None \<rparr>),
           fetch (ImageCall vendor model prompt file) w)
      | Google_API \<Rightarrow>
          if \<not> present geminiKey then (Inl (KeyNotSet Google_API), w)
          else
            (case reply of
               ImageRejected m \<Rightarrow> Inl (Thrown m)
             | ImageHttpError body \<Rightarrow> Inl (ImageCallFailed vendor body)
             | ImageHttpOk p \<Rightarrow>
                 (let failed = Inl (GeminiImageParseFailed
                                      (if payload_text p = [] then text_none else payload_text p))
                  in case payload_b64 p of
                       None \<Rightarrow> failed
                     | Some b \<Rightarrow> if b = [] then failed
                                 else Inr \<lparr> image_b64 = b, image_usage = Some (payload_usage p) \<rparr>),
             fetch (ImageCall vendor model prompt file) w)
      | Anthropic_API \<Rightarrow> (Inl AnthropicNoImage, w))"

subsection \<open>The vision engine\<close>

record VisionEngine =
  engine_provider :: Provider
  engine_vendor :: ApiVendor
  engine_apiModel :: string

definition chooseVisionEngine ::
    "(Provider, string) EngineConfig \<Rightarrow> string option \<Rightarrow> string option \<Rightarrow> ErrMsg + VisionEngine" where
  "chooseVisionEngine cfg openaiKey geminiKey =
     (if textProvider cfg = Anthropic then
        (if present openaiKey then
           Inr \<lparr> engine_provider = OpenAI, engine_vendor = getApiVendor OpenAI,
                 engine_apiModel = resolveApiModel OpenAI Text (textModel defaultConfig) \<rparr>
         else if present geminiKey then
           Inr \<lparr> engine_provider = Gemini, engine_vendor = getApiVendor Gemini,
                 engine_apiModel = resolveApiModel Gemini Text ''gemini-2.5-flash'' \<rparr>
         else Inl VisionKeyRequired)
      else
        Inr \<lparr> engine_provider = textProvider cfg, engine_vendor = getApiVendor (textProvider cfg),
              engine_apiModel = resolveApiModel (textProvider cfg) Text (textModel cfg) \<rparr>)"

subsection \<open>The handler\<close>

text \<open>
  The normalised configuration read at its declared type: every slot a string, the
  providers among the three names.
\<close>

fun provider_of :: "jsval \<Rightarrow> Provider option" where
  "provider_of (JStr s) =
     (if s = ''openai'' then Some OpenAI
      else if s = ''gemini'' then Some Gemini
      else if s = ''anthropic'' then Some Anthropic
      else None)"
| "provider_of v = None"

fun string_of :: "jsval \<Rightarrow> string option" where
  "string_of (JStr s) = Some s"
| "string_of v = None"

definition typed_config :: "(jsval, jsval) EngineConfig \<Rightarrow> (Provider, string) EngineConfig option" where
  "typed_config c =
     (case (provider_of (textProvider c), string_of (textModel c),
            provider_of (imageProvider c), string_of (imageModel c)) of
        (Some tp, Some tm, Some ip, Some im) \<Rightarrow>
          Some \<lparr> textProvider = tp, textModel = tm, imageProvider = ip, imageModel = im \<rparr>
      | _ \<Rightarrow> None)"

text \<open>The two fixed Korean phrases and one English phrase with a typographic apostrophe, as UTF-8.\<close>

definition default_one_line_concept :: string where
  "default_one_line_concept =
     [CHR 0xEC, CHR 0x8A, CHR 0xA4, CHR 0xED, CHR 0x8A, CHR 0x9C, CHR 0xEB, CHR 0x94, CHR 0x94,
      CHR 0xEC, CHR 0x98, CHR 0xA4] @ '' '' @
     [CHR 0xEB, CHR 0x9D, CHR 0xBC, CHR 0xEC, CHR 0x9D, CHR 0xB4, CHR 0xED, CHR 0x8C, CHR 0x85,
      CHR 0xEC, CHR 0x9C, CHR 0xBC, CHR 0xEB, CHR 0xA1, CHR 0x9C] @ '' '' @
     [CHR 0xEC, CHR 0xA0, CHR 0x9C, CHR 0xED, CHR 0x92, CHR 0x88] @ '' '' @
     [CHR 0xEC, CHR 0x84, CHR 0xA0, CHR 0xEB, CHR 0xAA, CHR 0x85] @ '' '' @
     [CHR 0xEA, CHR 0xB0, CHR 0x95, CHR 0xEC, CHR 0xA1, CHR 0xB0]"

definition default_concept_used :: string where
  "default_concept_used =
     [CHR 0xEC, CHR 0x8A, CHR 0xA4, CHR 0xED, CHR 0x8A, CHR 0x9C, CHR 0xEB, CHR 0x94, CHR 0x94,
      CHR 0xEC, CHR 0x98, CHR 0xA4] @ '' '' @
     [CHR 0xEB, CHR 0xAC, CHR 0xB4, CHR 0xEB, CHR 0x93, CHR 0x9C, CHR 0xEB, CHR 0xA1, CHR 0x9C] @ '' '' @
     [CHR 0xEC, CHR 0xA0, CHR 0x9C, CHR 0xED, CHR 0x92, CHR 0x88] @ '' '' @
     [CHR 0xEA, CHR 0xB0, CHR 0x95, CHR 0xEC, CHR 0xA1, CHR 0xB0]"

definition default_vision :: "string \<Rightarrow> jsval" where
  "default_vision raw =
     JObj [ (''product_type'', JStr ''product''), (''immutable_elements'', JArr []),
            (''distinguishing_features'', JArr []), (''raw'', JStr raw) ]"

definition default_direction :: "string \<Rightarrow> jsval" where
  "default_direction userConcept =
     JObj [ (''one_line_concept'',
               JStr (if userConcept \<noteq> [] then userConcept else default_one_line_concept)),
            (''product_description'', JStr ''the product (accurate description required)''),
            (''background'', JStr ''a clean neutral studio surface''),
            (''lighting_setup'', JStr ''three-point softbox setup''),
            (''lighting_purpose'', JStr ''create a clean premium silhouette and reveal texture''),
            (''camera_angle'', JStr ''3/4 front angle''),
            (''showcase_feature'',
               JStr (''the product'' @ [CHR 0xE2, CHR 0x80, CHR 0x99] @
                     ''s main form and key brand elements'')),
            (''key_detail'', JStr ''material texture and stitching''),
            (''aspect_ratio'', JStr ''1:1'') ]"

text \<open>
  \<open>String(direction?.one_line_concept || "").trim() || (userConcept || default)\<close>.
\<close>

definition conceptUsed_of :: "(real \<Rightarrow> string) \<Rightarrow> jsval \<Rightarrow> string \<Rightarrow> ErrMsg + string" where
  "conceptUsed_of ns direction userConcept =
     (let one = js_get direction ''one_line_concept''
      in case js_String ns (if truthy one then one else JStr []) of
           Inl e \<Rightarrow> Inl e
         | Inr s' \<Rightarrow>
             Inr (if js_trim s' \<noteq> [] then js_trim s'
                  else if userConcept \<noteq> [] then userConcept
                  else default_concept_used))"

text \<open>Step 2: the configuration from the form field, normalised.\<close>

definition loadEngineConfig :: "FormData \<Rightarrow> (jsval, jsval) EngineConfig" where
  "loadEngineConfig form =
     (let cfgRaw = form_text (form_engineConfig form) ''{}''
      in case JSON_parse cfgRaw of
           Some v \<Rightarrow> normalizeEngineConfig v
         | None \<Rightarrow> normalizeEngineConfig (config_object (js_config defaultConfig)))"

text \<open>The data of \<open>prisma.requestLog.create\<close> in step 6.\<close>

definition initial_log :: "string \<Rightarrow> string \<Rightarrow> (Provider, string) EngineConfig \<Rightarrow> RequestLog" where
  "initial_log title userConcept cfg =
     \<lparr> log_title = title,
       log_userConcept = (if userConcept \<noteq> [] then Some userConcept else None),
       log_conceptUsed = None,
       log_textProvider = textProvider cfg, log_textModel = textModel cfg,
       log_imageProvider = imageProvider cfg, log_imageModel = imageModel cfg,
       log_success = False, log_errorMessage = None,
       log_totalCostUsd = Num 0, log_latencyMs = 0 \<rparr>"

text \<open>The data of the three \<open>prisma.requestCostLineItem.create\<close> calls.\<close>

definition text_item ::
    "nat \<Rightarrow> Stage \<Rightarrow> Provider \<Rightarrow> string \<Rightarrow> TokenUsage \<Rightarrow> jsnum \<Rightarrow> RequestCostLineItem" where
  "text_item rid stage p model u cost =
     \<lparr> item_requestId = rid, item_stage = stage, item_provider = p, item_model = model,
       item_inputTokens = Some (usage_input u), item_outputTokens = Some (usage_output u),
       item_totalTokens = Some (usage_total u),
       item_imageSize = None, item_imageCount = None, item_costUsd = cost \<rparr>"

definition image_item :: "nat \<Rightarrow> Provider \<Rightarrow> string \<Rightarrow> jsnum \<Rightarrow> RequestCostLineItem" where
  "image_item rid p model cost =
     \<lparr> item_requestId = rid, item_stage = IMAGE_EDIT, item_provider = p, item_model = model,
       item_inputTokens = None, item_outputTokens = None, item_totalTokens = None,
       item_imageSize = Some 1024, item_imageCount = Some 1, item_costUsd = cost \<rparr>"

text \<open>
  Steps 6 to 10 of the handler, everything after the key checks: the log row is created,
  the three stages run, the row is updated. The result is the thrown error or the
  response, with the id of the created row.
\<close>

definition stages ::
    "Env \<Rightarrow> string \<Rightarrow> string \<Rightarrow> File \<Rightarrow> string \<Rightarrow> (Provider, string) EngineConfig \<Rightarrow>
     World \<Rightarrow> (ErrMsg + Response) \<times> nat \<times> World" where
  "stages env title userConcept file dataUrl cfg w0 =
     (let textVendor = getApiVendor (textProvider cfg);
          imageVendor = getApiVendor (imageProvider cfg);
          openaiKey = OPENAI_API_KEY env;
          geminiKey = GEMINI_API_KEY env;
          anthropicKey = ANTHROPIC_API_KEY env;
          created = requestLog_create (initial_log title userConcept cfg) w0;
          rid = fst created;
          w1 = snd created;
          textApiModel = resolveApiModel (textProvider cfg) Text (textModel cfg);
          imageApiModel = resolveApiModel (imageProvider cfg) Image (imageModel cfg)
      in case chooseVisionEngine cfg openaiKey geminiKey of
           Inl e \<Rightarrow> (Inl e, rid, w1)
         | Inr visionEngine \<Rightarrow>
       (case callTextModel (vision_reply env) (engine_vendor visionEngine)
               (engine_apiModel visionEngine) (buildVisionPrompt title) (Some dataUrl)
               openaiKey geminiKey anthropicKey w1 of
          (Inl e, w2) \<Rightarrow> (Inl e, rid, w2)
        | (Inr visionCall, w2) \<Rightarrow>
       (let vU = result_usage visionCall;
            vCost = calcTextCostUsd (engine_vendor visionEngine) (engine_apiModel visionEngine) vU;
            total1 = js_add (Num 0) vCost;
            w3 = requestCostLineItem_create
                   (text_item rid VISION (engine_provider visionEngine)
                      (engine_apiModel visionEngine) vU vCost) w2;
            visionJson = nullish (safeParseJson (result_text visionCall))
                           (default_vision (result_text visionCall))
        in case callTextModel (concept_reply env) textVendor textApiModel
                  (buildConceptPrompt title visionJson
                     (if userConcept \<noteq> [] then Some userConcept else None))
                  None openaiKey geminiKey anthropicKey w3 of
             (Inl e, w4) \<Rightarrow> (Inl e, rid, w4)
           | (Inr conceptCall, w4) \<Rightarrow>
       (let cU = result_usage conceptCall;
            cCost = calcTextCostUsd textVendor textApiModel cU;
            total2 = js_add total1 cCost;
            w5 = requestCostLineItem_create
                   (text_item rid CONCEPT (textProvider cfg) textApiModel cU cCost) w4;
            direction = nullish (safeParseJson (result_text conceptCall))
                          (default_direction userConcept)
        in case conceptUsed_of (number_toString env) direction userConcept of
             Inl e \<Rightarrow> (Inl e, rid, w5)
           | Inr conceptUsed \<Rightarrow>
       (case buildFinalImagePrompt (number_toString env) title visionJson direction of
          Inl e \<Rightarrow> (Inl e, rid, w5)
        | Inr editPrompt \<Rightarrow>
       (case callImageEdit (image_reply env) imageVendor imageApiModel editPrompt file
               openaiKey geminiKey w5 of
          (Inl e, w6) \<Rightarrow> (Inl e, rid, w6)
        | (Inr imgCall, w6) \<Rightarrow>
       (let b64 = image_b64 imgCall;
            imgCost = calcImageCostUsd imageVendor imageApiModel 1 (Some Low)
                        (if imageVendor = Google_API then image_usage imgCall else None);
            total3 = js_add total2 imgCost;
            w7 = requestCostLineItem_create
                   (image_item rid (imageProvider cfg) imageApiModel imgCost) w6;
            latencyMs = finished_at env - started_at env;
            w8 = requestLog_update rid
                   (\<lambda>r. r\<lparr> log_conceptUsed := Some conceptUsed, log_success := True,
                            log_errorMessage := None, log_latencyMs := latencyMs,
                            log_totalCostUsd := total3 \<rparr>) w7
        in (Inr (ResultJson \<lparr> concept_used = conceptUsed, image_base64 = b64 \<rparr>), rid, w8))))))))"

text \<open>
  The \<open>try\<close> block: what it throws or returns, the value of \<open>requestLogId\<close> when it
  ends, and the world. The configuration is normalised before the two validation checks;
  it is read at its declared type where its slots are first used, and the branch for a
  slot of another type is there for totality only (\<open>normalizeEngineConfig\<close> always
  returns catalog strings).
\<close>

definition try_block :: "Env \<Rightarrow> Request \<Rightarrow> World \<Rightarrow> (ErrMsg + Response) \<times> nat option \<times> World" where
  "try_block env req w =
     (case req of
        Unreadable m \<Rightarrow> (Inl (Thrown m), None, w)
      | Multipart form \<Rightarrow>
          (let imageFile = form_image form;
               title = js_trim (form_text (form_title form) []);
               userConcept = js_trim (form_text (form_concept form) []);
               cfg_js = loadEngineConfig form
           in if title = [] then (Inr (bad TitleRequired 400), None, w)
              else
                (case imageFile of
                   NoEntry \<Rightarrow> (Inr (bad ImageRequired 400), None, w)
                 | TextEntry t \<Rightarrow> (Inr (bad ImageRequired 400), None, w)
                 | FileEntry file \<Rightarrow>
                     (case typed_config cfg_js of
                        None \<Rightarrow> (Inl (Thrown ''engineConfig''), None, w)
                      | Some cfg \<Rightarrow>
                          (let mime = (if file_type file = [] then ''image/png'' else file_type file);
                               dataUrl = ''data:'' @ mime @ '';base64,'' @ file_base64 file;
                               textVendor = getApiVendor (textProvider cfg);
                               imageVendor = getApiVendor (imageProvider cfg);
                               openaiKey = OPENAI_API_KEY env;
                               geminiKey = GEMINI_API_KEY env;
                               anthropicKey = ANTHROPIC_API_KEY env
                           in if textVendor = OpenAI_API \<and> \<not> present openaiKey
                                then (Inr (bad (KeyNotSet OpenAI_API) 500), None, w)
                              else if textVendor = Google_API \<and> \<not> present geminiKey
                                then (Inr (bad (KeyNotSet Google_API) 500), None, w)
                              else if textVendor = Anthropic_API \<and> \<not> present anthropicKey
                                then (Inr (bad (KeyNotSet Anthropic_API) 500), None, w)
                              else if imageVendor = OpenAI_API \<and> \<not> present openaiKey
                                then (Inr (bad (KeyNotSet OpenAI_API) 500), None, w)
                              else if imageVendor = Google_API \<and> \<not> present geminiKey
                                then (Inr (bad (KeyNotSet Google_API) 500), None, w)
                              else if imageVendor = Anthropic_API
                                then (Inr (bad AnthropicNoImage 400), None, w)
                              else
                                (case stages env title userConcept
                                        (file\<lparr> file_type := mime \<rparr>) dataUrl cfg w of
                                   (r, rid, w') \<Rightarrow> (r, Some rid, w')))))))"

text \<open>
  \<open>POST\<close>: the \<open>try\<close> block and its \<open>catch\<close>, which marks the log row failed when
  one was created and answers 500. The handler starts on a store and no calls made.
\<close>

definition POST :: "Env \<Rightarrow> Request \<Rightarrow> Db \<Rightarrow> Response \<times> World" where
  "POST env req d =
     (case try_block env req \<lparr> db = d, calls = [] \<rparr> of
        (Inr response, rid, w) \<Rightarrow> (response, w)
      | (Inl msg, rid, w) \<Rightarrow>
          (let latencyMs = finished_at env - started_at env
           in (bad msg 500,
               case rid of
                 None \<Rightarrow> w
               | Some i \<Rightarrow>
                   requestLog_update i
                     (\<lambda>r. r\<lparr> log_success := False, log_errorMessage := Some msg,
                              log_latencyMs := latencyMs \<rparr>) w)))"

section \<open>Vocabulary of the properties\<close>

text \<open>
  The (provider, model) pairs of the enabled entries of a catalog, as the values a
  configuration slot holds at run time.
\<close>

definition enabled_pairs :: "ModelOption list \<Rightarrow> (jsval \<times> jsval) set" where
  "enabled_pairs ms =
     set (map (\<lambda>m. (JStr (provider_name (provider m)), JStr (id_opt m))) (filter enabled ms))"

text \<open>A request, an environment and a store to run the handler on.\<close>

definition sample_usage :: TokenUsage where
  "sample_usage = \<lparr> usage_input = 1200, usage_output = 300, usage_total = 1500 \<rparr>"

definition sample_env :: Env where
  "sample_env =
     \<lparr> OPENAI_API_KEY = Some ''sk-test'', GEMINI_API_KEY = None, ANTHROPIC_API_KEY = Some ''ak-test'',
       started_at = 1000, finished_at = 4500,
       vision_reply = TextHttpOk
         \<lparr> result_text = ''{\"product_type\":\"sneaker\",\"immutable_elements\":[\"blue\",\"logo\"]}'',
           result_usage = sample_usage \<rparr>,
       concept_reply = TextHttpOk
         \<lparr> result_text = ''Sure! {\"one_line_concept\":\" clean studio \",\"background\":\"white\"} done'',
           result_usage = sample_usage \<rparr>,
       image_reply = ImageHttpOk
         \<lparr> payload_b64 = Some ''iVBORw0KGgo='', payload_text = [], payload_usage = sample_usage \<rparr>,
       number_toString = (\<lambda>r. ''0'') \<rparr>"

definition sample_file :: File where
  "sample_file = \<lparr> file_type = ''image/png'', file_base64 = ''AAEC'' \<rparr>"

definition sample_form :: "FormDataEntry \<Rightarrow> FormData" where
  "sample_form cfg =
     \<lparr> form_image = FileEntry sample_file, form_title = TextEntry ''Blue Sneaker'',
       form_concept = NoEntry, form_engineConfig = cfg \<rparr>"

definition empty_db :: Db where
  "empty_db = \<lparr> requestLog = [], requestCostLineItem = [] \<rparr>"

text \<open>
  What the calls made by the stages look like: the first one, if any, is the vision call
  to the engine \<open>chooseVisionEngine\<close> selects, and every image call goes to the
  configured image vendor and model.
\<close>

definition calls_ok ::
  "Env \<Rightarrow> string \<Rightarrow> string \<Rightarrow> (Provider, string) EngineConfig \<Rightarrow> NetCall list \<Rightarrow> bool" where
  "calls_ok env title url cfg cs =
     ((case cs of
         [] \<Rightarrow> True
       | c # rest \<Rightarrow>
           (case chooseVisionEngine cfg (OPENAI_API_KEY env) (GEMINI_API_KEY env) of
              Inl e \<Rightarrow> False
            | Inr ve \<Rightarrow> c = TextCall (engine_vendor ve) (engine_apiModel ve)
                              (buildVisionPrompt title) (Some url)))
      \<and> list_all (\<lambda>c. case c of
                        TextCall v m p u \<Rightarrow> True
                      | ImageCall v m p f \<Rightarrow>
                          v = getApiVendor (imageProvider cfg)
                          \<and> m = resolveApiModel (imageProvider cfg) Image (imageModel cfg)) cs)"

text \<open>The same pairs at their declared types.\<close>

definition typed_pairs :: "ModelOption list \<Rightarrow> (Provider \<times> string) set" where
  "typed_pairs ms = set (map (\<lambda>m. (provider m, id_opt m)) (filter enabled ms))"

text \<open>
  Step 5 passed: no key check and not the Anthropic image check stops the request. The
  media type of the upload is its own or, when that is empty, \<open>image/png\<close>.
\<close>

definition passes_checks :: "Env \<Rightarrow> (Provider, string) EngineConfig \<Rightarrow> bool" where
  "passes_checks env cfg =
     (let textVendor = getApiVendor (textProvider cfg);
          imageVendor = getApiVendor (imageProvider cfg)
      in \<not> (textVendor = OpenAI_API \<and> \<not> present (OPENAI_API_KEY env))
         \<and> \<not> (textVendor = Google_API \<and> \<not> present (GEMINI_API_KEY env))
         \<and> \<not> (textVendor = Anthropic_API \<and> \<not> present (ANTHROPIC_API_KEY env))
         \<and> \<not> (imageVendor = OpenAI_API \<and> \<not> present (OPENAI_API_KEY env))
         \<and> \<not> (imageVendor = Google_API \<and> \<not> present (GEMINI_API_KEY env))
         \<and> imageVendor \<noteq> Anthropic_API)"

definition mime_of :: "File \<Rightarrow> string" where
  "mime_of f = (if file_type f = [] then ''image/png'' else file_type f)"

text \<open>The stages as the handler runs them on a validated request.\<close>

definition run_stages ::
    "Env \<Rightarrow> FormData \<Rightarrow> File \<Rightarrow> (Provider, string) EngineConfig \<Rightarrow> Db \<Rightarrow> (ErrMsg + Response) \<times> nat \<times> World" where
  "run_stages env form f cfg d =
     stages env (js_trim (form_text (form_title form) []))
       (js_trim (form_text (form_concept form) []))
       (f\<lparr> file_type := mime_of f \<rparr>)
       (''data:'' @ mime_of f @ '';base64,'' @ file_base64 f) cfg \<lparr> db = d, calls = [] \<rparr>"

section \<open>Properties of the model registry\<close>

lemma text_pairs:
  "enabled_pairs TEXT_MODELS =
     { (JStr ''openai'', JStr ''gpt-5.2''), (JStr ''openai'', JStr ''gpt-5.1''),
       (JStr ''openai'', JStr ''gpt-4.1-mini''), (JStr ''gemini'', JStr ''gemini-2.5-pro''),
       (JStr ''gemini'', JStr ''gemini-2.5-flash''), (JStr ''anthropic'', JStr ''claude-sonnet''),
       (JStr ''anthropic'', JStr ''claude-haiku'') }"
  by (simp add: enabled_pairs_def TEXT_MODELS_def)

lemma image_pairs:
  "enabled_pairs IMAGE_MODELS =
     { (JStr ''openai'', JStr ''gpt-image-1-mini''), (JStr ''openai'', JStr ''gpt-image-1''),
       (JStr ''gemini'', JStr ''gemini-2.5-flash-image'') }"
  by (simp add: enabled_pairs_def IMAGE_MODELS_def)

lemma isValidTextModel_iff: "isValidTextModel p m \<longleftrightarrow> (p, m) \<in> enabled_pairs TEXT_MODELS"
  unfolding text_pairs unfolding isValidTextModel_def TEXT_MODELS_def
  by (simp add: eq_commute[of "JStr _" p] eq_commute[of "JStr _" m])

lemma isValidImageModel_iff: "isValidImageModel p m \<longleftrightarrow> (p, m) \<in> enabled_pairs IMAGE_MODELS"
  unfolding image_pairs unfolding isValidImageModel_def IMAGE_MODELS_def
  by (simp add: eq_commute[of "JStr _" p] eq_commute[of "JStr _" m])

lemma default_text_valid: "(JStr ''openai'', JStr ''gpt-4.1-mini'') \<in> enabled_pairs TEXT_MODELS"
  by (simp add: text_pairs)

lemma default_image_valid: "(JStr ''openai'', JStr ''gpt-image-1-mini'') \<in> enabled_pairs IMAGE_MODELS"
  by (simp add: image_pairs)

lemma anthropic_no_image: "(JStr ''anthropic'', m) \<notin> enabled_pairs IMAGE_MODELS"
  by (simp add: image_pairs)

lemma normalize_text:
  "(textProvider (normalizeEngineConfig x), textModel (normalizeEngineConfig x)) =
     (let src = (if truthy x then x else JObj []);
          tp = slot src ''textProvider'' (JStr ''openai'');
          tm = slot src ''textModel'' (JStr ''gpt-4.1-mini'')
      in if (tp, tm) \<in> enabled_pairs TEXT_MODELS then (tp, tm)
         else (JStr ''openai'', JStr ''gpt-4.1-mini''))"
  by (simp add: normalizeEngineConfig_def Let_def defaultConfig_def isValidTextModel_iff)

lemma normalize_image:
  "(imageProvider (normalizeEngineConfig x), imageModel (normalizeEngineConfig x)) =
     (let src = (if truthy x then x else JObj []);
          ip = slot src ''imageProvider'' (JStr ''openai'');
          im = slot src ''imageModel'' (JStr ''gpt-image-1-mini'')
      in if (ip, im) \<in> enabled_pairs IMAGE_MODELS then (ip, im)
         else (JStr ''openai'', JStr ''gpt-image-1-mini''))"
  using default_image_valid anthropic_no_image
  by (simp add: normalizeEngineConfig_def Let_def defaultConfig_def isValidImageModel_iff)

lemma normalize_text_valid:
  "(textProvider (normalizeEngineConfig x), textModel (normalizeEngineConfig x))
     \<in> enabled_pairs TEXT_MODELS"
  unfolding normalize_text using default_text_valid by (simp add: Let_def)

lemma normalize_image_valid:
  "(imageProvider (normalizeEngineConfig x), imageModel (normalizeEngineConfig x))
     \<in> enabled_pairs IMAGE_MODELS"
  unfolding normalize_image using default_image_valid by (simp add: Let_def)

text \<open>
  C1. Whatever value \<open>normalizeEngineConfig\<close> is given (\<open>null\<close>, \<open>undefined\<close>, an object
  with missing, unknown or wrongly typed slots, Anthropic as image provider), it returns a
  configuration whose text pair is an enabled entry of the text catalog, whose image
  provider is not Anthropic and whose image pair is an enabled entry of the image catalog.
  A merged pair that is in the catalog is kept; any other is replaced by the default pair
  (openai with gpt-4.1-mini, openai with gpt-image-1-mini). The function is total: there
  is no input on which it throws.
\<close>

theorem normalizeEngineConfig_valid:
  "(textProvider (normalizeEngineConfig x), textModel (normalizeEngineConfig x))
       \<in> enabled_pairs TEXT_MODELS
   \<and> imageProvider (normalizeEngineConfig x) \<noteq> JStr ''anthropic''
   \<and> (imageProvider (normalizeEngineConfig x), imageModel (normalizeEngineConfig x))
       \<in> enabled_pairs IMAGE_MODELS
   \<and> (textProvider (normalizeEngineConfig x), textModel (normalizeEngineConfig x)) =
       (let src = (if truthy x then x else JObj []);
            tp = slot src ''textProvider'' (JStr ''openai'');
            tm = slot src ''textModel'' (JStr ''gpt-4.1-mini'')
        in if (tp, tm) \<in> enabled_pairs TEXT_MODELS then (tp, tm)
           else (JStr ''openai'', JStr ''gpt-4.1-mini''))
   \<and> (imageProvider (normalizeEngineConfig x), imageModel (normalizeEngineConfig x)) =
       (let src = (if truthy x then x else JObj []);
            ip = slot src ''imageProvider'' (JStr ''openai'');
            im = slot src ''imageModel'' (JStr ''gpt-image-1-mini'')
        in if (ip, im) \<in> enabled_pairs IMAGE_MODELS then (ip, im)
           else (JStr ''openai'', JStr ''gpt-image-1-mini''))"
proof -
  have "imageProvider (normalizeEngineConfig x) \<noteq> JStr ''anthropic''"
    using normalize_image_valid[of x] anthropic_no_image by metis
  then show ?thesis
    using normalize_text_valid[of x] normalize_image_valid[of x]
      normalize_text[of x] normalize_image[of x]
    by blast
qed

theorem normalizeEngineConfig_valid_witness:
  "normalizeEngineConfig
     (JObj [(''textProvider'', JStr ''mystery''), (''textModel'', JNull),
            (''imageProvider'', JStr ''anthropic''), (''imageModel'', JStr ''gpt-image-1'')])
   = \<lparr> textProvider = JStr ''openai'', textModel = JStr ''gpt-4.1-mini'',
       imageProvider = JStr ''openai'', imageModel = JStr ''gpt-image-1-mini'' \<rparr>
   \<and> (JStr ''openai'', JStr ''gpt-4.1-mini'') \<in> enabled_pairs TEXT_MODELS
   \<and> (JStr ''openai'', JStr ''gpt-image-1-mini'') \<in> enabled_pairs IMAGE_MODELS"
  using normalizeEngineConfig_valid
          [of "JObj [(''textProvider'', JStr ''mystery''), (''textModel'', JNull),
                     (''imageProvider'', JStr ''anthropic''), (''imageModel'', JStr ''gpt-image-1'')]"]
  by (simp add: text_pairs image_pairs slot_def Let_def EngineConfig.equality)

text \<open>
  C9. Normalising the object that \<open>normalizeEngineConfig\<close> returned gives the same
  configuration again: every output is a fixed point. (The four slots are compared; the
  record carries no other property.)
\<close>

theorem normalizeEngineConfig_idempotent:
  "normalizeEngineConfig (config_object (normalizeEngineConfig x)) = normalizeEngineConfig x"
proof -
  let ?c = "normalizeEngineConfig x"
  have t: "(textProvider ?c, textModel ?c) \<in> enabled_pairs TEXT_MODELS"
    by (rule normalize_text_valid)
  have i: "(imageProvider ?c, imageModel ?c) \<in> enabled_pairs IMAGE_MODELS"
    by (rule normalize_image_valid)
  have "textProvider (normalizeEngineConfig (config_object ?c)) = textProvider ?c"
       "textModel (normalizeEngineConfig (config_object ?c)) = textModel ?c"
    using normalize_text[of "config_object ?c"] t
    by (simp_all add: config_object_def slot_def Let_def)
  moreover have "imageProvider (normalizeEngineConfig (config_object ?c)) = imageProvider ?c"
       "imageModel (normalizeEngineConfig (config_object ?c)) = imageModel ?c"
    using normalize_image[of "config_object ?c"] i
    by (simp_all add: config_object_def slot_def Let_def)
  ultimately show ?thesis
    by (simp add: EngineConfig.equality)
qed

theorem normalizeEngineConfig_idempotent_witness:
  "normalizeEngineConfig
     (config_object (normalizeEngineConfig (JObj [(''textProvider'', JStr ''gemini''), (''extra'', JNum 1)])))
   = \<lparr> textProvider = JStr ''openai'', textModel = JStr ''gpt-4.1-mini'',
       imageProvider = JStr ''openai'', imageModel = JStr ''gpt-image-1-mini'' \<rparr>"
proof -
  have e: "normalizeEngineConfig (JObj [(''textProvider'', JStr ''gemini''), (''extra'', JNum 1)])
           = \<lparr> textProvider = JStr ''openai'', textModel = JStr ''gpt-4.1-mini'',
               imageProvider = JStr ''openai'', imageModel = JStr ''gpt-image-1-mini'' \<rparr>"
    by (simp add: normalizeEngineConfig_def Let_def slot_def defaultConfig_def
          isValidTextModel_iff isValidImageModel_iff text_pairs image_pairs)
  show ?thesis
    using normalizeEngineConfig_idempotent
            [of "JObj [(''textProvider'', JStr ''gemini''), (''extra'', JNum 1)]"]
    by (simp only: e)
qed

lemma resolve_cases:
  "resolveApiModel p k i =
     (if p = Anthropic \<and> k = Text \<and> i = ''claude-sonnet'' then ''claude-3-5-sonnet-latest''
      else if p = Anthropic \<and> k = Text \<and> i = ''claude-haiku'' then ''claude-3-5-haiku-latest''
      else i)"
  by (cases p; cases k; simp add: resolveApiModel_def TEXT_MODELS_def IMAGE_MODELS_def)

lemma resolve_entry:
  "m \<in> set (TEXT_MODELS @ IMAGE_MODELS) \<Longrightarrow> enabled m \<Longrightarrow>
   resolveApiModel (provider m) (kind m) (id_opt m) = (case apiModel m of Some a \<Rightarrow> a | None \<Rightarrow> id_opt m)"
  by (auto simp: resolve_cases TEXT_MODELS_def IMAGE_MODELS_def)

lemma resolve_no_entry:
  assumes "\<not> list_ex (\<lambda>m. enabled m \<and> provider m = p \<and> kind m = k \<and> id_opt m = i)
              (TEXT_MODELS @ IMAGE_MODELS)"
  shows "resolveApiModel p k i = i"
proof (rule ccontr)
  assume "resolveApiModel p k i \<noteq> i"
  then consider "p = Anthropic \<and> k = Text \<and> i = ''claude-sonnet''"
    | "p = Anthropic \<and> k = Text \<and> i = ''claude-haiku''"
    unfolding resolve_cases by (auto split: if_splits)
  then show False
  proof cases
    case 1
    then show False using assms by (simp add: TEXT_MODELS_def IMAGE_MODELS_def)
  next
    case 2
    then show False using assms by (simp add: TEXT_MODELS_def IMAGE_MODELS_def)
  qed
qed

text \<open>
  C4, as stated, fails: an empty id matches no entry and is returned as it is, so the
  result is empty.
\<close>

theorem resolveApiModel_empty_id: "resolveApiModel OpenAI Text [] = []"
  by (simp add: resolve_cases)

text \<open>
  C4, amended. \<open>resolveApiModel\<close> is total and idempotent; for an enabled catalog entry
  matching provider, kind and id it returns the entry's wire-model override when there is
  one and the id otherwise; when no enabled entry matches it returns the id unchanged;
  and the result is non-empty whenever the id is non-empty.
\<close>

theorem resolveApiModel_total_idempotent:
  "resolveApiModel p k (resolveApiModel p k i) = resolveApiModel p k i
   \<and> (\<forall>m \<in> set (TEXT_MODELS @ IMAGE_MODELS).
         enabled m \<and> provider m = p \<and> kind m = k \<and> id_opt m = i \<longrightarrow>
         resolveApiModel p k i = (case apiModel m of Some a \<Rightarrow> a | None \<Rightarrow> i))
   \<and> (\<not> list_ex (\<lambda>m. enabled m \<and> provider m = p \<and> kind m = k \<and> id_opt m = i)
            (TEXT_MODELS @ IMAGE_MODELS) \<longrightarrow> resolveApiModel p k i = i)
   \<and> (i \<noteq> [] \<longrightarrow> resolveApiModel p k i \<noteq> [])"
proof -
  have a: "resolveApiModel p k (resolveApiModel p k i) = resolveApiModel p k i"
    by (simp add: resolve_cases)
  have b: "\<forall>m \<in> set (TEXT_MODELS @ IMAGE_MODELS).
         enabled m \<and> provider m = p \<and> kind m = k \<and> id_opt m = i \<longrightarrow>
         resolveApiModel p k i = (case apiModel m of Some a \<Rightarrow> a | None \<Rightarrow> i)"
    using resolve_entry by blast
  have c: "\<not> list_ex (\<lambda>m. enabled m \<and> provider m = p \<and> kind m = k \<and> id_opt m = i)
            (TEXT_MODELS @ IMAGE_MODELS) \<longrightarrow> resolveApiModel p k i = i"
    using resolve_no_entry by blast
  have d: "i \<noteq> [] \<longrightarrow> resolveApiModel p k i \<noteq> []"
    by (simp add: resolve_cases)
  from a b c d show ?thesis by blast
qed

theorem resolveApiModel_total_idempotent_witness:
  "resolveApiModel Anthropic Text ''claude-sonnet'' = ''claude-3-5-sonnet-latest''
   \<and> resolveApiModel Anthropic Text (resolveApiModel Anthropic Text ''claude-sonnet'')
       = resolveApiModel Anthropic Text ''claude-sonnet''
   \<and> resolveApiModel Gemini Image ''no-such-model'' = ''no-such-model''
   \<and> ''no-such-model'' \<noteq> [] \<and> resolveApiModel Gemini Image ''no-such-model'' \<noteq> []"
proof -
  let ?m = "\<lparr> id_opt = ''claude-sonnet'', label = ''Claude Sonnet'', provider = Anthropic, kind = Text,
         enabled = True, notes_opt = None, apiModel = Some ''claude-3-5-sonnet-latest'',
         capabilities = Some \<lparr> inputImage = Some False, outputImage = None \<rparr> \<rparr>"
  note A = resolveApiModel_total_idempotent[of Anthropic Text "''claude-sonnet''"]
  note G = resolveApiModel_total_idempotent[of Gemini Image "''no-such-model''"]
  have m: "?m \<in> set (TEXT_MODELS @ IMAGE_MODELS)"
    by (simp add: TEXT_MODELS_def)
  have f: "\<not> list_ex (\<lambda>m. enabled m \<and> provider m = Gemini \<and> kind m = Image \<and> id_opt m = ''no-such-model'')
            (TEXT_MODELS @ IMAGE_MODELS)"
    by (simp add: TEXT_MODELS_def IMAGE_MODELS_def)
  have n: "''no-such-model'' \<noteq> []" by simp
  from A have "\<forall>m \<in> set (TEXT_MODELS @ IMAGE_MODELS).
         enabled m \<and> provider m = Anthropic \<and> kind m = Text \<and> id_opt m = ''claude-sonnet'' \<longrightarrow>
         resolveApiModel Anthropic Text ''claude-sonnet''
           = (case apiModel m of Some a \<Rightarrow> a | None \<Rightarrow> ''claude-sonnet'')"
    by (rule conjunct1[OF conjunct2])
  from bspec[OF this m] have 1: "resolveApiModel Anthropic Text ''claude-sonnet'' = ''claude-3-5-sonnet-latest''"
    by simp
  from A have 2: "resolveApiModel Anthropic Text (resolveApiModel Anthropic Text ''claude-sonnet'')
       = resolveApiModel Anthropic Text ''claude-sonnet''"
    by (rule conjunct1)
  from G f have 3: "resolveApiModel Gemini Image ''no-such-model'' = ''no-such-model''"
    by (simp only: simp_thms)
  from G n have 4: "resolveApiModel Gemini Image ''no-such-model'' \<noteq> []"
    by (simp only: simp_thms not_False_eq_True)
  from 1 2 3 n 4 show ?thesis by (intro conjI)
qed

section \<open>Properties of the pricing table\<close>

lemma usd_mono: "a \<le> b \<Longrightarrow> usd a \<le> usd b"
  unfolding usd_def by (intro divide_right_mono of_int_le_iff[THEN iffD2] floor_mono) auto

lemma rates_nonneg:
  "map_of (TEXT_RATES v) m = Some r \<Longrightarrow> 0 \<le> inputPerM r \<and> 0 \<le> outputPerM r"
  by (cases v) (auto split: if_splits)

text \<open>
  C5. The claim asks for exactly 0 on every (vendor, model) pair absent from the pricing
  table. The model name \<open>constructor\<close> is absent from the OpenAI table, yet reading it
  from the table object finds the function inherited from \<open>Object.prototype\<close>, the
  \<open>!rate\<close> test passes, and the result is \<open>NaN\<close>.
\<close>

theorem calcTextCostUsd_inherited_name:
  "map_of (TEXT_RATES OpenAI_API) ''constructor'' = None
   \<and> calcTextCostUsd OpenAI_API ''constructor''
        \<lparr> usage_input = 1000, usage_output = 1000, usage_total = 2000 \<rparr> = NaN"
  by (simp add: calcTextCostUsd_def get_prop_def object_prototype_keys_def)

text \<open>
  The rest of C5 holds on the code: the formula for a priced pair, 0 for an absent name
  that \<open>Object.prototype\<close> does not have either, and monotonicity in both counts.
\<close>

lemma calcTextCostUsd_own:
  "map_of (TEXT_RATES v) m = Some r \<Longrightarrow>
   calcTextCostUsd v m u =
     Num (usd (usage_input u / 1000000 * inputPerM r + usage_output u / 1000000 * outputPerM r))"
  by (simp add: calcTextCostUsd_def get_prop_def PER_M_def Let_def)

lemma calcTextCostUsd_absent:
  "map_of (TEXT_RATES v) m = None \<Longrightarrow> m \<notin> set object_prototype_keys \<Longrightarrow> calcTextCostUsd v m u = Num 0"
  by (simp add: calcTextCostUsd_def get_prop_def)

lemma calcTextCostUsd_mono:
  assumes "map_of (TEXT_RATES v) m = Some r"
    and "usage_input u \<le> usage_input u'" and "usage_output u \<le> usage_output u'"
  shows "\<exists>a b. calcTextCostUsd v m u = Num a \<and> calcTextCostUsd v m u' = Num b \<and> a \<le> b"
proof -
  from rates_nonneg[OF assms(1)] have nn: "0 \<le> inputPerM r" "0 \<le> outputPerM r" by auto
  have "usage_input u / 1000000 * inputPerM r \<le> usage_input u' / 1000000 * inputPerM r"
    using assms(2) nn(1) by (intro mult_right_mono divide_right_mono) auto
  moreover have "usage_output u / 1000000 * outputPerM r \<le> usage_output u' / 1000000 * outputPerM r"
    using assms(3) nn(2) by (intro mult_right_mono divide_right_mono) auto
  ultimately show ?thesis
    using calcTextCostUsd_own[OF assms(1)] usd_mono by (metis add_mono)
qed

section \<open>Properties of the safe JSON helper\<close>

lemma match_braces_wrapped:
  assumes "obj \<noteq> []" "hd obj = CHR ''{''" "last obj = CHR ''}''"
    and "CHR ''{'' \<notin> set pre" "CHR ''}'' \<notin> set post"
  shows "match_braces (pre @ obj @ post) = Some obj"
proof -
  have a: "dropWhile (\<lambda>c. c \<noteq> CHR ''{'') (pre @ obj @ post) = obj @ post"
  proof -
    have "dropWhile (\<lambda>c. c \<noteq> CHR ''{'') (pre @ obj @ post)
            = dropWhile (\<lambda>c. c \<noteq> CHR ''{'') (obj @ post)"
      using assms(4) by (intro dropWhile_append2) auto
    also have "\<dots> = obj @ post"
      using assms(1,2) by (cases obj) auto
    finally show ?thesis .
  qed
  have b: "dropWhile (\<lambda>c. c \<noteq> CHR ''}'') (rev post @ rev obj) = rev obj"
  proof -
    have "dropWhile (\<lambda>c. c \<noteq> CHR ''}'') (rev post @ rev obj)
            = dropWhile (\<lambda>c. c \<noteq> CHR ''}'') (rev obj)"
      using assms(5) by (intro dropWhile_append2) auto
    also have "\<dots> = rev obj"
      using assms(1,3) by (cases "rev obj") (auto simp: hd_rev)
    finally show ?thesis .
  qed
  have c: "rev (dropWhile (\<lambda>c. c \<noteq> CHR ''}'') (rev (obj @ post))) = obj"
    using b by simp
  show ?thesis
    unfolding match_braces_def Let_def a c using assms(1) by simp
qed

text \<open>
  C3, as stated, fails: commentary may itself contain braces. The match then runs from
  the commentary's opening brace to the object's closing brace, does not parse, and the
  helper returns \<open>null\<close> although the text holds exactly one JSON object.
\<close>

theorem safeParseJson_commentary_with_braces:
  "JSON_parse ''{\"a\":1}'' = Some (JObj [(''a'', JNum 1)])
   \<and> safeParseJson (''use {braces}: '' @ ''{\"a\":1}'') = JNull"
  by code_simp

text \<open>A text that is JSON but no object is returned parsed, not as \<open>null\<close>.\<close>

lemma safeParseJson_no_object_not_null:
  "safeParseJson ''5'' = JNum 5"
  by code_simp

text \<open>
  C3, amended. A text that parses as JSON yields the parsed value (for an object payload,
  that object). A text that does not parse as a whole and consists of one JSON object
  text between a leading commentary without an opening brace and a trailing commentary
  without a closing brace yields that object. A text that does not parse and whose span
  from the first opening brace to the last closing brace is missing or does not parse
  yields \<open>null\<close>. The helper is total: it never throws.
\<close>

theorem safeParseJson_recovers:
  "(JSON_parse t = Some v \<longrightarrow> safeParseJson t = v)
   \<and> (JSON_parse obj = Some v \<and> obj \<noteq> [] \<and> hd obj = CHR ''{'' \<and> last obj = CHR ''}''
        \<and> CHR ''{'' \<notin> set pre \<and> CHR ''}'' \<notin> set post \<and> JSON_parse (pre @ obj @ post) = None
        \<longrightarrow> safeParseJson (pre @ obj @ post) = v)
   \<and> (JSON_parse t = None \<and> (case match_braces t of None \<Rightarrow> True | Some m \<Rightarrow> JSON_parse m = None)
        \<longrightarrow> safeParseJson t = JNull)"
  by (auto simp: safeParseJson_def match_braces_wrapped split: option.splits)

theorem safeParseJson_recovers_witness:
  "safeParseJson ''{\"a\":1}'' = JObj [(''a'', JNum 1)]
   \<and> safeParseJson (''Sure! '' @ ''{\"a\":1}'' @ '' done'') = JObj [(''a'', JNum 1)]
   \<and> safeParseJson ''no json here'' = JNull"
proof -
  have p: "JSON_parse ''{\"a\":1}'' = Some (JObj [(''a'', JNum 1)])" by code_simp
  have q: "JSON_parse (''Sure! '' @ ''{\"a\":1}'' @ '' done'') = None" by code_simp
  have r: "JSON_parse ''no json here'' = None" by code_simp
  have s: "match_braces ''no json here'' = None" by code_simp
  have 1: "safeParseJson ''{\"a\":1}'' = JObj [(''a'', JNum 1)]"
    using safeParseJson_recovers[of "''{\"a\":1}''" "JObj [(''a'', JNum 1)]"] p by blast
  have 2: "safeParseJson (''Sure! '' @ ''{\"a\":1}'' @ '' done'') = JObj [(''a'', JNum 1)]"
    using safeParseJson_recovers[of _ "JObj [(''a'', JNum 1)]" "''{\"a\":1}''" "''Sure! ''" "'' done''"] p q
    by simp
  have 3: "safeParseJson ''no json here'' = JNull"
    using safeParseJson_recovers[of "''no json here''"] r s by simp
  from 1 2 3 show ?thesis by blast
qed

section \<open>Properties of the handler\<close>

lemma callTextModel_db [simp]:
  "db (snd (callTextModel r v m p u a b c w)) = db w"
  by (simp add: callTextModel_def fetch_def split: ApiVendor.splits option.splits sum.splits)

lemma callImageEdit_db [simp]:
  "db (snd (callImageEdit r v m p f a b w)) = db w"
  by (simp add: callImageEdit_def fetch_def split: ApiVendor.splits)

lemma callTextModel_Inr:
  "fst (callTextModel r v m p u a b c w) = Inr res \<Longrightarrow>
   r = TextHttpOk res \<and> calls (snd (callTextModel r v m p u a b c w)) = calls w @ [TextCall v m p u]"
  by (auto simp: callTextModel_def fetch_def text_outcome_def
           split: ApiVendor.splits option.splits sum.splits if_splits TextReply.splits)

lemma callImageEdit_Inr:
  "fst (callImageEdit r v m p f a b w) = Inr res \<Longrightarrow>
   (\<exists>ip. r = ImageHttpOk ip \<and> payload_b64 ip = Some (image_b64 res)
      \<and> image_usage res = (if v = Google_API then Some (payload_usage ip) else None))
   \<and> image_b64 res \<noteq> []
   \<and> calls (snd (callImageEdit r v m p f a b w)) = calls w @ [ImageCall v m p f]"
  by (auto simp: callImageEdit_def fetch_def Let_def
           split: ApiVendor.splits option.splits if_splits ImageReply.splits)

lemma create_item_log [simp]:
  "requestLog (db (requestCostLineItem_create i w)) = requestLog (db w)"
  "requestCostLineItem (db (requestCostLineItem_create i w)) = requestCostLineItem (db w) @ [i]"
  "calls (requestCostLineItem_create i w) = calls w"
  by (simp_all add: requestCostLineItem_create_def)

lemma create_log_log [simp]:
  "requestLog (db (snd (requestLog_create r w))) = requestLog (db w) @ [r]"
  "requestCostLineItem (db (snd (requestLog_create r w))) = requestCostLineItem (db w)"
  "fst (requestLog_create r w) = length (requestLog (db w))"
  "calls (snd (requestLog_create r w)) = calls w"
  by (simp_all add: requestLog_create_def)

lemma update_log [simp]:
  "requestLog (db (requestLog_update i f w)) = (requestLog (db w))[i := f (requestLog (db w) ! i)]"
  "requestCostLineItem (db (requestLog_update i f w)) = requestCostLineItem (db w)"
  "calls (requestLog_update i f w) = calls w"
  by (simp_all add: requestLog_update_def)

lemma stages_rid: "fst (snd (stages env title uc file url cfg w0)) = length (requestLog (db w0))"
  by (simp add: stages_def Let_def split_beta split: sum.splits)

lemma stages_log_Inl:
  "fst (stages env title uc file url cfg w0) = Inl e \<Longrightarrow>
   requestLog (db (snd (snd (stages env title uc file url cfg w0))))
     = requestLog (db w0) @ [initial_log title uc cfg]"
  by (auto simp add: stages_def Let_def split_beta split: sum.splits)

lemma stages_success:
  assumes ok: "fst (stages env title uc file url cfg w0) = Inr r"
  shows "\<exists>ve vc cc ip cu b.
      chooseVisionEngine cfg (OPENAI_API_KEY env) (GEMINI_API_KEY env) = Inr ve
    \<and> vision_reply env = TextHttpOk vc
    \<and> concept_reply env = TextHttpOk cc
    \<and> image_reply env = ImageHttpOk ip
    \<and> payload_b64 ip = Some b \<and> b \<noteq> []
    \<and> r = ResultJson \<lparr> concept_used = cu, image_base64 = b \<rparr>
    \<and> conceptUsed_of (number_toString env)
          (nullish (safeParseJson (result_text cc)) (default_direction uc)) uc = Inr cu
    \<and> requestLog (db (snd (snd (stages env title uc file url cfg w0))))
        = requestLog (db w0) @
          [ (initial_log title uc cfg)
              \<lparr> log_conceptUsed := Some cu, log_success := True, log_errorMessage := None,
                log_latencyMs := finished_at env - started_at env,
                log_totalCostUsd :=
                  js_add (js_add (js_add (Num 0)
                     (calcTextCostUsd (engine_vendor ve) (engine_apiModel ve) (result_usage vc)))
                     (calcTextCostUsd (getApiVendor (textProvider cfg))
                        (resolveApiModel (textProvider cfg) Text (textModel cfg)) (result_usage cc)))
                     (calcImageCostUsd (getApiVendor (imageProvider cfg))
                        (resolveApiModel (imageProvider cfg) Image (imageModel cfg)) 1 (Some Low)
                        (if getApiVendor (imageProvider cfg) = Google_API
                         then Some (payload_usage ip) else None)) \<rparr> ]
    \<and> requestCostLineItem (db (snd (snd (stages env title uc file url cfg w0))))
        = requestCostLineItem (db w0) @
          [ text_item (length (requestLog (db w0))) VISION (engine_provider ve) (engine_apiModel ve)
              (result_usage vc)
              (calcTextCostUsd (engine_vendor ve) (engine_apiModel ve) (result_usage vc)),
            text_item (length (requestLog (db w0))) CONCEPT (textProvider cfg)
              (resolveApiModel (textProvider cfg) Text (textModel cfg)) (result_usage cc)
              (calcTextCostUsd (getApiVendor (textProvider cfg))
                 (resolveApiModel (textProvider cfg) Text (textModel cfg)) (result_usage cc)),
            image_item (length (requestLog (db w0))) (imageProvider cfg)
              (resolveApiModel (imageProvider cfg) Image (imageModel cfg))
              (calcImageCostUsd (getApiVendor (imageProvider cfg))
                 (resolveApiModel (imageProvider cfg) Image (imageModel cfg)) 1 (Some Low)
                 (if getApiVendor (imageProvider cfg) = Google_API
                  then Some (payload_usage ip) else None)) ]
    \<and> length (calls (snd (snd (stages env title uc file url cfg w0)))) = length (calls w0) + 3"
proof -
  let ?ok = "OPENAI_API_KEY env" and ?gk = "GEMINI_API_KEY env" and ?ak = "ANTHROPIC_API_KEY env"
  let ?rid = "length (requestLog (db w0))"
  let ?tm = "resolveApiModel (textProvider cfg) Text (textModel cfg)"
  let ?im = "resolveApiModel (imageProvider cfg) Image (imageModel cfg)"
  define w1 where "w1 = snd (requestLog_create (initial_log title uc cfg) w0)"
  note unf = stages_def Let_def split_beta w1_def[symmetric]
  obtain ve where ve: "chooseVisionEngine cfg ?ok ?gk = Inr ve"
    using ok by (cases "chooseVisionEngine cfg ?ok ?gk") (simp_all add: unf)
  define R1 where "R1 = callTextModel (vision_reply env) (engine_vendor ve) (engine_apiModel ve)
       (buildVisionPrompt title) (Some url) ?ok ?gk ?ak w1"
  obtain vc where vc: "fst R1 = Inr vc"
    using ok ve by (cases "fst R1") (simp_all add: unf R1_def[symmetric])
  define vcost where "vcost = calcTextCostUsd (engine_vendor ve) (engine_apiModel ve) (result_usage vc)"
  define w3 where "w3 = requestCostLineItem_create
       (text_item ?rid VISION (engine_provider ve) (engine_apiModel ve) (result_usage vc) vcost) (snd R1)"
  define vj where "vj = nullish (safeParseJson (result_text vc)) (default_vision (result_text vc))"
  define R2 where "R2 = callTextModel (concept_reply env) (getApiVendor (textProvider cfg)) ?tm
       (buildConceptPrompt title vj (if uc \<noteq> [] then Some uc else None)) None ?ok ?gk ?ak w3"
  have rid1: "fst (requestLog_create (initial_log title uc cfg) w0) = ?rid" by simp
  obtain cc where cc: "fst R2 = Inr cc"
    using ok ve vc
    by (cases "fst R2")
       (simp_all add: unf rid1 R1_def[symmetric] vcost_def[symmetric] w3_def[symmetric]
          vj_def[symmetric] R2_def[symmetric])
  define ccost where "ccost = calcTextCostUsd (getApiVendor (textProvider cfg)) ?tm (result_usage cc)"
  define w5 where "w5 = requestCostLineItem_create
       (text_item ?rid CONCEPT (textProvider cfg) ?tm (result_usage cc) ccost) (snd R2)"
  define dir where "dir = nullish (safeParseJson (result_text cc)) (default_direction uc)"
  note unf2 = unf rid1 R1_def[symmetric] vcost_def[symmetric] w3_def[symmetric]
          vj_def[symmetric] R2_def[symmetric] ccost_def[symmetric] w5_def[symmetric] dir_def[symmetric]
  obtain cu where cu: "conceptUsed_of (number_toString env) dir uc = Inr cu"
    using ok ve vc cc
    by (cases "conceptUsed_of (number_toString env) dir uc") (simp_all add: unf2)
  obtain ep where ep: "buildFinalImagePrompt (number_toString env) title vj dir = Inr ep"
    using ok ve vc cc cu
    by (cases "buildFinalImagePrompt (number_toString env) title vj dir") (simp_all add: unf2)
  define R3 where "R3 = callImageEdit (image_reply env) (getApiVendor (imageProvider cfg)) ?im ep file
       ?ok ?gk w5"
  obtain ic where ic: "fst R3 = Inr ic"
    using ok ve vc cc cu ep
    by (cases "fst R3") (simp_all add: unf2 R3_def[symmetric])
  from callTextModel_Inr[OF vc[unfolded R1_def], folded R1_def]
  have v1: "vision_reply env = TextHttpOk vc" and c1: "length (calls (snd R1)) = length (calls w1) + 1"
    by simp_all
  from callTextModel_Inr[OF cc[unfolded R2_def], folded R2_def]
  have v2: "concept_reply env = TextHttpOk cc" and c2: "length (calls (snd R2)) = length (calls w3) + 1"
    by simp_all
  from callImageEdit_Inr[OF ic[unfolded R3_def], folded R3_def]
  obtain ip where v3: "image_reply env = ImageHttpOk ip" and b3: "payload_b64 ip = Some (image_b64 ic)"
     and u3: "image_usage ic = (if getApiVendor (imageProvider cfg) = Google_API
                               then Some (payload_usage ip) else None)"
     and n3: "image_b64 ic \<noteq> []"
     and c3: "length (calls (snd R3)) = length (calls w5) + 1"
    by auto
  have dbs: "db (snd R1) = db w1" "db (snd R2) = db w3" "db (snd R3) = db w5"
    by (simp_all add: R1_def R2_def R3_def)
  have res: "stages env title uc file url cfg w0 =
      (Inr (ResultJson \<lparr> concept_used = cu, image_base64 = image_b64 ic \<rparr>), ?rid,
       requestLog_update ?rid
         (\<lambda>r. r\<lparr> log_conceptUsed := Some cu, log_success := True, log_errorMessage := None,
                  log_latencyMs := finished_at env - started_at env,
                  log_totalCostUsd := js_add (js_add (js_add (Num 0) vcost) ccost)
                     (calcImageCostUsd (getApiVendor (imageProvider cfg)) ?im 1 (Some Low)
                        (if getApiVendor (imageProvider cfg) = Google_API
                         then image_usage ic else None)) \<rparr>)
         (requestCostLineItem_create
            (image_item ?rid (imageProvider cfg) ?im
               (calcImageCostUsd (getApiVendor (imageProvider cfg)) ?im 1 (Some Low)
                  (if getApiVendor (imageProvider cfg) = Google_API
                   then image_usage ic else None)))
            (snd R3)))"
    using ve vc cc cu ep ic
    by (simp add: unf2 R3_def[symmetric])
  have r: "r = ResultJson \<lparr> concept_used = cu, image_base64 = image_b64 ic \<rparr>"
    using ok unfolding res by simp
  have logs: "requestLog (db (snd R3)) = requestLog (db w0) @ [initial_log title uc cfg]"
    by (simp add: dbs w5_def w3_def w1_def)
  have items: "requestCostLineItem (db (snd R3)) = requestCostLineItem (db w0) @
      [ text_item ?rid VISION (engine_provider ve) (engine_apiModel ve) (result_usage vc) vcost,
        text_item ?rid CONCEPT (textProvider cfg) ?tm (result_usage cc) ccost ]"
    by (simp add: dbs w5_def w3_def w1_def)
  have cl: "length (calls (snd R3)) = length (calls w0) + 3"
    using c1 c2 c3 by (simp add: w5_def w3_def w1_def)
  show ?thesis
    apply (rule exI[of _ ve], rule exI[of _ vc], rule exI[of _ cc], rule exI[of _ ip],
           rule exI[of _ cu], rule exI[of _ "image_b64 ic"])
    using ve v1 v2 v3 b3 n3 r cu u3
    by (simp add: res logs items cl dir_def vcost_def ccost_def)
qed

lemma callTextModel_calls:
  "\<exists>cs. calls (snd (callTextModel r v m p u a b c w)) = calls w @ cs
        \<and> (cs = [] \<or> cs = [TextCall v m p u])
        \<and> (isl (fst (callTextModel r v m p u a b c w)) \<or> cs = [TextCall v m p u])"
  by (auto simp: callTextModel_def fetch_def text_outcome_def
           split: ApiVendor.splits option.splits sum.splits if_splits TextReply.splits)

lemma callImageEdit_calls:
  "\<exists>cs. calls (snd (callImageEdit r v m p f a b w)) = calls w @ cs
        \<and> (cs = [] \<or> cs = [ImageCall v m p f])"
  by (auto simp: callImageEdit_def fetch_def split: ApiVendor.splits)

lemma stages_calls:
  "\<exists>cs. calls (snd (snd (stages env title uc img url cfg w0))) = calls w0 @ cs
        \<and> calls_ok env title url cfg cs"
proof -
  let ?ok = "OPENAI_API_KEY env" and ?gk = "GEMINI_API_KEY env" and ?ak = "ANTHROPIC_API_KEY env"
  let ?rid = "length (requestLog (db w0))"
  let ?tm = "resolveApiModel (textProvider cfg) Text (textModel cfg)"
  let ?im = "resolveApiModel (imageProvider cfg) Image (imageModel cfg)"
  let ?S = "stages env title uc img url cfg w0"
  define w1 where "w1 = snd (requestLog_create (initial_log title uc cfg) w0)"
  have cw1: "calls w1 = calls w0" by (simp add: w1_def)
  have rid1: "fst (requestLog_create (initial_log title uc cfg) w0) = ?rid" by simp
  note unf = stages_def Let_def split_beta w1_def[symmetric] rid1
  show ?thesis
  proof (cases "chooseVisionEngine cfg ?ok ?gk")
    case (Inl e)
    then have "calls (snd (snd ?S)) = calls w0 @ []" by (simp add: unf cw1)
    then show ?thesis by (intro exI[of _ "[]"]) (simp add: calls_ok_def)
  next
    case (Inr ve)
    let ?T1 = "TextCall (engine_vendor ve) (engine_apiModel ve) (buildVisionPrompt title) (Some url)"
    define R1 where "R1 = callTextModel (vision_reply env) (engine_vendor ve) (engine_apiModel ve)
       (buildVisionPrompt title) (Some url) ?ok ?gk ?ak w1"
    obtain cs1 where cs1: "calls (snd R1) = calls w0 @ cs1" "cs1 = [] \<or> cs1 = [?T1]"
        "isl (fst R1) \<or> cs1 = [?T1]"
      using callTextModel_calls[of "vision_reply env" "engine_vendor ve" "engine_apiModel ve"
          "buildVisionPrompt title" "Some url" ?ok ?gk ?ak w1]
      unfolding R1_def cw1 by blast
    have ok1: "calls_ok env title url cfg cs1"
      using cs1(2) Inr by (auto simp: calls_ok_def)
    show ?thesis
    proof (cases "fst R1")
      case (Inl e)
      then have "calls (snd (snd ?S)) = calls (snd R1)"
        using Inr by (simp add: unf R1_def[symmetric])
      then show ?thesis using cs1(1) ok1 by auto
    next
      case vc: (Inr vc)
      then have cs1': "cs1 = [?T1]" using cs1(3) by simp
      define vcost where "vcost = calcTextCostUsd (engine_vendor ve) (engine_apiModel ve) (result_usage vc)"
      define w3 where "w3 = requestCostLineItem_create
         (text_item ?rid VISION (engine_provider ve) (engine_apiModel ve) (result_usage vc) vcost) (snd R1)"
      define vj where "vj = nullish (safeParseJson (result_text vc)) (default_vision (result_text vc))"
      define R2 where "R2 = callTextModel (concept_reply env) (getApiVendor (textProvider cfg)) ?tm
         (buildConceptPrompt title vj (if uc \<noteq> [] then Some uc else None)) None ?ok ?gk ?ak w3"
      have cw3: "calls w3 = calls w0 @ [?T1]" using cs1(1) cs1' by (simp add: w3_def)
      obtain cs2 where cs2: "calls (snd R2) = calls w0 @ ?T1 # cs2"
          "list_all (\<lambda>c. case c of TextCall v m p u \<Rightarrow> True | ImageCall v m p f \<Rightarrow> False) cs2"
        using callTextModel_calls[of "concept_reply env" "getApiVendor (textProvider cfg)" ?tm
          "buildConceptPrompt title vj (if uc \<noteq> [] then Some uc else None)" None ?ok ?gk ?ak w3]
        unfolding R2_def[symmetric] cw3 by auto
      have ok2: "calls_ok env title url cfg (?T1 # cs2)"
        using cs2(2) Inr by (auto simp: calls_ok_def list_all_iff split: NetCall.splits)
      note unf2 = unf R1_def[symmetric] vcost_def[symmetric] w3_def[symmetric]
          vj_def[symmetric] R2_def[symmetric]
      show ?thesis
      proof (cases "fst R2")
        case (Inl e)
        then have "calls (snd (snd ?S)) = calls (snd R2)"
          using Inr vc by (simp add: unf2)
        then show ?thesis using cs2(1) ok2 by auto
      next
        case cc: (Inr cc)
        define ccost where "ccost = calcTextCostUsd (getApiVendor (textProvider cfg)) ?tm (result_usage cc)"
        define w5 where "w5 = requestCostLineItem_create
           (text_item ?rid CONCEPT (textProvider cfg) ?tm (result_usage cc) ccost) (snd R2)"
        define dir where "dir = nullish (safeParseJson (result_text cc)) (default_direction uc)"
        have cw5: "calls w5 = calls w0 @ ?T1 # cs2" using cs2(1) by (simp add: w5_def)
        note unf3 = unf2 ccost_def[symmetric] w5_def[symmetric] dir_def[symmetric]
        show ?thesis
        proof (cases "conceptUsed_of (number_toString env) dir uc")
          case (Inl e)
          then have "calls (snd (snd ?S)) = calls w5"
            using Inr vc cc by (simp add: unf3)
          then show ?thesis using cw5 ok2 by auto
        next
          case cu: (Inr cu)
          show ?thesis
          proof (cases "buildFinalImagePrompt (number_toString env) title vj dir")
            case (Inl e)
            then have "calls (snd (snd ?S)) = calls w5"
              using Inr vc cc cu by (simp add: unf3)
            then show ?thesis using cw5 ok2 by auto
          next
            case ep: (Inr ep)
            define R3 where "R3 = callImageEdit (image_reply env) (getApiVendor (imageProvider cfg))
               ?im ep img ?ok ?gk w5"
            obtain cs3 where cs3: "calls (snd R3) = calls w0 @ ?T1 # cs2 @ cs3"
               "cs3 = [] \<or> cs3 = [ImageCall (getApiVendor (imageProvider cfg)) ?im ep img]"
              using callImageEdit_calls[of "image_reply env" "getApiVendor (imageProvider cfg)"
                 ?im ep img ?ok ?gk w5]
              unfolding R3_def[symmetric] cw5 by auto
            have ok3: "calls_ok env title url cfg (?T1 # cs2 @ cs3)"
              using cs2(2) cs3(2) Inr by (auto simp: calls_ok_def list_all_iff split: NetCall.splits)
            have "calls (snd (snd ?S)) = calls (snd R3)"
              using Inr vc cc cu ep
              by (cases "fst R3") (simp_all add: unf3 R3_def[symmetric])
            then show ?thesis using cs3(1) ok3 by auto
          qed
        qed
      qed
    qed
  qed
qed

text \<open>The normalised configuration always reads at its declared type, with priced models.\<close>

lemma enabled_pairs_typed:
  "enabled_pairs ms = (\<lambda>(p, m). (JStr (provider_name p), JStr m)) ` typed_pairs ms"
  by (auto simp: enabled_pairs_def typed_pairs_def image_iff)

lemma provider_of_name [simp]: "provider_of (JStr (provider_name p)) = Some p"
  by (cases p) simp_all

lemma typed_text_pairs:
  "typed_pairs TEXT_MODELS =
     { (OpenAI, ''gpt-5.2''), (OpenAI, ''gpt-5.1''), (OpenAI, ''gpt-4.1-mini''),
       (Gemini, ''gemini-2.5-pro''), (Gemini, ''gemini-2.5-flash''),
       (Anthropic, ''claude-sonnet''), (Anthropic, ''claude-haiku'') }"
  by (simp add: typed_pairs_def TEXT_MODELS_def)

lemma typed_image_pairs:
  "typed_pairs IMAGE_MODELS =
     { (OpenAI, ''gpt-image-1-mini''), (OpenAI, ''gpt-image-1''), (Gemini, ''gemini-2.5-flash-image'') }"
  by (simp add: typed_pairs_def IMAGE_MODELS_def)

lemma typed_config_normalize:
  "\<exists>cfg. typed_config (normalizeEngineConfig x) = Some cfg
        \<and> js_config cfg = normalizeEngineConfig x
        \<and> (textProvider cfg, textModel cfg) \<in> typed_pairs TEXT_MODELS
        \<and> (imageProvider cfg, imageModel cfg) \<in> typed_pairs IMAGE_MODELS"
proof -
  let ?c = "normalizeEngineConfig x"
  obtain tp tm where t: "textProvider ?c = JStr (provider_name tp)" "textModel ?c = JStr tm"
      "(tp, tm) \<in> typed_pairs TEXT_MODELS"
    using normalize_text_valid[of x] unfolding enabled_pairs_typed by auto
  obtain ip im where i: "imageProvider ?c = JStr (provider_name ip)" "imageModel ?c = JStr im"
      "(ip, im) \<in> typed_pairs IMAGE_MODELS"
    using normalize_image_valid[of x] unfolding enabled_pairs_typed by auto
  have "typed_config ?c = Some \<lparr> textProvider = tp, textModel = tm, imageProvider = ip, imageModel = im \<rparr>"
    by (simp add: typed_config_def t i del: provider_of.simps)
  moreover have "js_config \<lparr> textProvider = tp, textModel = tm, imageProvider = ip, imageModel = im \<rparr> = ?c"
    by (simp add: js_config_def t i EngineConfig.equality)
  ultimately show ?thesis using t(3) i(3) by auto
qed

lemma loadEngineConfig_typed:
  "\<exists>cfg. typed_config (loadEngineConfig form) = Some cfg
        \<and> js_config cfg = loadEngineConfig form
        \<and> (textProvider cfg, textModel cfg) \<in> typed_pairs TEXT_MODELS
        \<and> (imageProvider cfg, imageModel cfg) \<in> typed_pairs IMAGE_MODELS"
  unfolding loadEngineConfig_def Let_def
  by (cases "JSON_parse (form_text (form_engineConfig form) ''{}'')")
     (simp_all add: typed_config_normalize)

lemma text_priced:
  assumes "(p, m) \<in> typed_pairs TEXT_MODELS"
  shows "\<exists>r. map_of (TEXT_RATES (getApiVendor p)) (resolveApiModel p Text m) = Some r"
proof -
  from assms have "(p = OpenAI \<and> m = ''gpt-5.2'') \<or> (p = OpenAI \<and> m = ''gpt-5.1'')
    \<or> (p = OpenAI \<and> m = ''gpt-4.1-mini'') \<or> (p = Gemini \<and> m = ''gemini-2.5-pro'')
    \<or> (p = Gemini \<and> m = ''gemini-2.5-flash'') \<or> (p = Anthropic \<and> m = ''claude-sonnet'')
    \<or> (p = Anthropic \<and> m = ''claude-haiku'')"
    unfolding typed_text_pairs by simp
  then show ?thesis
    by (elim disjE) (simp_all add: resolve_cases)
qed

lemma vision_priced:
  assumes "chooseVisionEngine cfg a b = Inr ve"
    and "(textProvider cfg, textModel cfg) \<in> typed_pairs TEXT_MODELS"
  shows "\<exists>r. map_of (TEXT_RATES (engine_vendor ve)) (engine_apiModel ve) = Some r"
proof -
  from assms(1) consider
      "engine_vendor ve = OpenAI_API \<and> engine_apiModel ve = ''gpt-4.1-mini''"
    | "engine_vendor ve = Google_API \<and> engine_apiModel ve = ''gemini-2.5-flash''"
    | "engine_vendor ve = getApiVendor (textProvider cfg)
       \<and> engine_apiModel ve = resolveApiModel (textProvider cfg) Text (textModel cfg)"
    by (auto simp: chooseVisionEngine_def resolve_cases defaultConfig_def split: if_splits)
  then show ?thesis
  proof cases
    case 1
    then show ?thesis by simp
  next
    case 2
    then show ?thesis by simp
  next
    case 3
    then show ?thesis using text_priced[OF assms(2)] by simp
  qed
qed

lemma calcTextCostUsd_Num:
  "map_of (TEXT_RATES v) m = Some r \<Longrightarrow> \<exists>c. calcTextCostUsd v m u = Num c"
  by (simp add: calcTextCostUsd_own)

lemma calcImageCostUsd_Num: "\<exists>c. calcImageCostUsd v m n q u = Num c"
  by (simp add: calcImageCostUsd_def Let_def)

lemma image_not_anthropic:
  "(p, m) \<in> typed_pairs IMAGE_MODELS \<Longrightarrow> getApiVendor p \<noteq> Anthropic_API"
  unfolding typed_image_pairs by auto

text \<open>The handler either stops before the log row is created or runs the stages.\<close>

lemma try_block_stages:
  assumes "js_trim (form_text (form_title form) []) \<noteq> []"
    and "form_image form = FileEntry f"
    and "typed_config (loadEngineConfig form) = Some cfg"
    and "passes_checks env cfg"
  shows "try_block env (Multipart form) w =
     (let S = stages env (js_trim (form_text (form_title form) []))
                (js_trim (form_text (form_concept form) []))
                (f\<lparr> file_type := mime_of f \<rparr>)
                (''data:'' @ mime_of f @ '';base64,'' @ file_base64 f) cfg w
      in (fst S, Some (fst (snd S)), snd (snd S)))"
  using assms
  by (simp add: try_block_def Let_def passes_checks_def mime_of_def split_beta)

lemma try_block_early:
  assumes "js_trim (form_text (form_title form) []) = [] \<or> (\<forall>f. form_image form \<noteq> FileEntry f)
           \<or> (\<exists>cfg. typed_config (loadEngineConfig form) = Some cfg \<and> \<not> passes_checks env cfg)"
  shows "\<exists>e s. try_block env (Multipart form) w = (Inr (ErrorJson e s), None, w)
     \<and> (e, s) \<in> { (TitleRequired, 400), (ImageRequired, 400),
                    (KeyNotSet OpenAI_API, 500), (KeyNotSet Google_API, 500),
                    (KeyNotSet Anthropic_API, 500), (AnthropicNoImage, 400) }
     \<and> (s = 400 \<and> e \<noteq> AnthropicNoImage \<longleftrightarrow>
           js_trim (form_text (form_title form) []) = [] \<or> (\<forall>f. form_image form \<noteq> FileEntry f))
     \<and> (e = AnthropicNoImage \<longrightarrow>
           (\<exists>cfg. typed_config (loadEngineConfig form) = Some cfg
                \<and> getApiVendor (imageProvider cfg) = Anthropic_API))"
proof (cases "js_trim (form_text (form_title form) []) = []")
  case True
  then show ?thesis by (simp add: try_block_def Let_def)
next
  case title: False
  show ?thesis
  proof (cases "form_image form")
    case NoEntry
    then show ?thesis using title by (simp add: try_block_def Let_def)
  next
    case (TextEntry t)
    then show ?thesis using title by (simp add: try_block_def Let_def)
  next
    case (FileEntry f)
    then obtain cfg where cfg: "typed_config (loadEngineConfig form) = Some cfg"
       "\<not> passes_checks env cfg"
      using assms title by auto
    show ?thesis
      using title FileEntry cfg
      by (auto simp add: try_block_def Let_def passes_checks_def)
  qed
qed

subsection \<open>The handler as a whole\<close>

lemma POST_unreadable:
  "POST env (Unreadable m) d = (ErrorJson (Thrown m) 500, \<lparr> db = d, calls = [] \<rparr>)"
  by (simp add: POST_def try_block_def)

lemma POST_early:
  assumes "js_trim (form_text (form_title form) []) = [] \<or> (\<forall>f. form_image form \<noteq> FileEntry f)
           \<or> (\<exists>cfg. typed_config (loadEngineConfig form) = Some cfg \<and> \<not> passes_checks env cfg)"
  shows "\<exists>e s. POST env (Multipart form) d = (ErrorJson e s, \<lparr> db = d, calls = [] \<rparr>)
     \<and> (e, s) \<in> { (TitleRequired, 400), (ImageRequired, 400),
                    (KeyNotSet OpenAI_API, 500), (KeyNotSet Google_API, 500),
                    (KeyNotSet Anthropic_API, 500), (AnthropicNoImage, 400) }
     \<and> (s = 400 \<and> e \<noteq> AnthropicNoImage \<longleftrightarrow>
           js_trim (form_text (form_title form) []) = [] \<or> (\<forall>f. form_image form \<noteq> FileEntry f))
     \<and> (e = AnthropicNoImage \<longrightarrow>
           (\<exists>cfg. typed_config (loadEngineConfig form) = Some cfg
                \<and> getApiVendor (imageProvider cfg) = Anthropic_API))"
proof -
  from try_block_early[OF assms, of "\<lparr> db = d, calls = [] \<rparr>"]
  obtain e s where *: "try_block env (Multipart form) \<lparr> db = d, calls = [] \<rparr>
        = (Inr (ErrorJson e s), None, \<lparr> db = d, calls = [] \<rparr>)"
     and **: "(e, s) \<in> { (TitleRequired, 400), (ImageRequired, 400),
                    (KeyNotSet OpenAI_API, 500), (KeyNotSet Google_API, 500),
                    (KeyNotSet Anthropic_API, 500), (AnthropicNoImage, 400) }"
      "(s = 400 \<and> e \<noteq> AnthropicNoImage \<longleftrightarrow>
           js_trim (form_text (form_title form) []) = [] \<or> (\<forall>f. form_image form \<noteq> FileEntry f))"
      "(e = AnthropicNoImage \<longrightarrow>
           (\<exists>cfg. typed_config (loadEngineConfig form) = Some cfg
                \<and> getApiVendor (imageProvider cfg) = Anthropic_API))"
    by blast
  have "POST env (Multipart form) d = (ErrorJson e s, \<lparr> db = d, calls = [] \<rparr>)"
    by (simp add: POST_def *)
  with ** show ?thesis by blast
qed

lemma POST_run:
  assumes "js_trim (form_text (form_title form) []) \<noteq> []"
    and "form_image form = FileEntry f"
    and "typed_config (loadEngineConfig form) = Some cfg"
    and "passes_checks env cfg"
  shows "POST env (Multipart form) d =
     (case fst (run_stages env form f cfg d) of
        Inr response \<Rightarrow> (response, snd (snd (run_stages env form f cfg d)))
      | Inl msg \<Rightarrow>
          (ErrorJson msg 500,
           requestLog_update (fst (snd (run_stages env form f cfg d)))
             (\<lambda>r. r\<lparr> log_success := False, log_errorMessage := Some msg,
                      log_latencyMs := finished_at env - started_at env \<rparr>)
             (snd (snd (run_stages env form f cfg d)))))"
  unfolding POST_def try_block_stages[OF assms] run_stages_def Let_def
  by (simp split: sum.splits)

lemma POST_cases:
  obtains (early) e s where "POST env (Multipart form) d = (ErrorJson e s, \<lparr> db = d, calls = [] \<rparr>)"
      "(e, s) \<in> { (TitleRequired, 400), (ImageRequired, 400),
                    (KeyNotSet OpenAI_API, 500), (KeyNotSet Google_API, 500),
                    (KeyNotSet Anthropic_API, 500) }"
      "js_trim (form_text (form_title form) []) = [] \<or> (\<forall>f. form_image form \<noteq> FileEntry f)
           \<or> (\<exists>cfg. typed_config (loadEngineConfig form) = Some cfg \<and> \<not> passes_checks env cfg)"
      "s = 400 \<longleftrightarrow> js_trim (form_text (form_title form) []) = [] \<or> (\<forall>f. form_image form \<noteq> FileEntry f)"
  | (run) f cfg where "js_trim (form_text (form_title form) []) \<noteq> []"
      "form_image form = FileEntry f"
      "typed_config (loadEngineConfig form) = Some cfg"
      "js_config cfg = loadEngineConfig form"
      "(textProvider cfg, textModel cfg) \<in> typed_pairs TEXT_MODELS"
      "(imageProvider cfg, imageModel cfg) \<in> typed_pairs IMAGE_MODELS"
      "passes_checks env cfg"
proof -
  obtain cfg where cfg: "typed_config (loadEngineConfig form) = Some cfg"
      "js_config cfg = loadEngineConfig form"
      "(textProvider cfg, textModel cfg) \<in> typed_pairs TEXT_MODELS"
      "(imageProvider cfg, imageModel cfg) \<in> typed_pairs IMAGE_MODELS"
    using loadEngineConfig_typed by blast
  show ?thesis
  proof (cases "js_trim (form_text (form_title form) []) = [] \<or> (\<forall>f. form_image form \<noteq> FileEntry f)
           \<or> \<not> passes_checks env cfg")
    case True
    then have c: "js_trim (form_text (form_title form) []) = [] \<or> (\<forall>f. form_image form \<noteq> FileEntry f)
           \<or> (\<exists>cfg. typed_config (loadEngineConfig form) = Some cfg \<and> \<not> passes_checks env cfg)"
      using cfg(1) by blast
    from POST_early[OF c, of d] obtain e s where
      p: "POST env (Multipart form) d = (ErrorJson e s, \<lparr> db = d, calls = [] \<rparr>)"
      and q: "(e, s) \<in> { (TitleRequired, 400), (ImageRequired, 400),
                    (KeyNotSet OpenAI_API, 500), (KeyNotSet Google_API, 500),
                    (KeyNotSet Anthropic_API, 500), (AnthropicNoImage, 400) }"
      and r: "(s = 400 \<and> e \<noteq> AnthropicNoImage \<longleftrightarrow>
           js_trim (form_text (form_title form) []) = [] \<or> (\<forall>f. form_image form \<noteq> FileEntry f))"
      and t: "(e = AnthropicNoImage \<longrightarrow>
           (\<exists>cfg. typed_config (loadEngineConfig form) = Some cfg
                \<and> getApiVendor (imageProvider cfg) = Anthropic_API))"
      by blast
    have na: "e \<noteq> AnthropicNoImage"
      using t cfg(1) image_not_anthropic[OF cfg(4)] by auto
    with q have q': "(e, s) \<in> { (TitleRequired, 400), (ImageRequired, 400),
                    (KeyNotSet OpenAI_API, 500), (KeyNotSet Google_API, 500),
                    (KeyNotSet Anthropic_API, 500) }" by auto
    from r na have "s = 400 \<longleftrightarrow> js_trim (form_text (form_title form) []) = [] \<or> (\<forall>f. form_image form \<noteq> FileEntry f)"
      by simp
    with p q' c show ?thesis by (rule early)
  next
    case False
    then obtain f where "form_image form = FileEntry f" by blast
    with False cfg show ?thesis by (intro run[of f cfg]) auto
  qed
qed

text \<open>
  C8. A request whose title is empty (absent, empty or white space only) or whose image
  field is not a file is answered with status 400 and one of the two validation
  messages; the store is as it was, so no log row and no cost line item were written,
  and no vendor call was made.
\<close>

theorem POST_validation_first:
  assumes "js_trim (form_text (form_title form) []) = [] \<or> (\<forall>f. form_image form \<noteq> FileEntry f)"
  shows "\<exists>e. POST env (Multipart form) d = (ErrorJson e 400, \<lparr> db = d, calls = [] \<rparr>)
             \<and> (e = TitleRequired \<or> e = ImageRequired)"
proof -
  from assms have c: "js_trim (form_text (form_title form) []) = [] \<or> (\<forall>f. form_image form \<noteq> FileEntry f)
           \<or> (\<exists>cfg. typed_config (loadEngineConfig form) = Some cfg \<and> \<not> passes_checks env cfg)"
    by blast
  from POST_early[OF c, of d] assms show ?thesis by auto
qed

theorem POST_validation_first_witness:
  "POST sample_env (Multipart ((sample_form NoEntry)\<lparr> form_title := TextEntry ''   '' \<rparr>)) empty_db
     = (ErrorJson TitleRequired 400, \<lparr> db = empty_db, calls = [] \<rparr>)
   \<and> POST sample_env (Multipart ((sample_form NoEntry)\<lparr> form_image := TextEntry ''shoe.png'' \<rparr>)) empty_db
     = (ErrorJson ImageRequired 400, \<lparr> db = empty_db, calls = [] \<rparr>)"
proof -
  have a: "js_trim (form_text (form_title ((sample_form NoEntry)\<lparr> form_title := TextEntry ''   '' \<rparr>)) []) = []"
    by code_simp
  have b: "\<forall>f. form_image ((sample_form NoEntry)\<lparr> form_image := TextEntry ''shoe.png'' \<rparr>) \<noteq> FileEntry f"
    by simp
  have c: "js_trim (form_text (form_title ((sample_form NoEntry)\<lparr> form_image := TextEntry ''shoe.png'' \<rparr>)) []) \<noteq> []"
    by code_simp
  have 1: "fst (POST sample_env (Multipart ((sample_form NoEntry)\<lparr> form_title := TextEntry ''   '' \<rparr>)) empty_db)
            = ErrorJson TitleRequired 400"
    by code_simp
  have 2: "fst (POST sample_env (Multipart ((sample_form NoEntry)\<lparr> form_image := TextEntry ''shoe.png'' \<rparr>)) empty_db)
            = ErrorJson ImageRequired 400"
    by code_simp
  from POST_validation_first[of "(sample_form NoEntry)\<lparr> form_title := TextEntry ''   '' \<rparr>" sample_env empty_db] a 1
  have x: "POST sample_env (Multipart ((sample_form NoEntry)\<lparr> form_title := TextEntry ''   '' \<rparr>)) empty_db
     = (ErrorJson TitleRequired 400, \<lparr> db = empty_db, calls = [] \<rparr>)" by auto
  from POST_validation_first[of "(sample_form NoEntry)\<lparr> form_image := TextEntry ''shoe.png'' \<rparr>" sample_env empty_db] b 2
  have y: "POST sample_env (Multipart ((sample_form NoEntry)\<lparr> form_image := TextEntry ''shoe.png'' \<rparr>)) empty_db
     = (ErrorJson ImageRequired 400, \<lparr> db = empty_db, calls = [] \<rparr>)" by auto
  from x y show ?thesis by simp
qed

lemma js_String_error:
  "(js_String ns v = Inl e \<longrightarrow> e = Thrown ''Cannot convert object to primitive value'')"
  "(js_join ns sep xs = Inl e \<longrightarrow> e = Thrown ''Cannot convert object to primitive value'')"
  by (induction ns v and ns sep xs rule: js_String_js_join.induct)
     (auto split: if_splits sum.splits)

lemma strings_of_error:
  "strings_of ns vs = Inl e \<Longrightarrow> e = Thrown ''Cannot convert object to primitive value''"
  by (induction vs arbitrary: e) (auto split: sum.splits dest: js_String_error(1)[rule_format])

lemma conceptUsed_of_error:
  "conceptUsed_of ns dir uc = Inl e \<Longrightarrow> e = Thrown ''Cannot convert object to primitive value''"
  by (auto simp: conceptUsed_of_def Let_def split: sum.splits dest: js_String_error(1)[rule_format])

lemma buildFinalImagePrompt_error:
  "buildFinalImagePrompt ns title vj dir = Inl e \<Longrightarrow> e = Thrown ''Cannot convert object to primitive value''"
  by (auto simp: buildFinalImagePrompt_def Let_def simp del: strings_of.simps
           split: sum.splits if_splits
           dest: js_String_error(2)[rule_format] strings_of_error)

lemma chooseVisionEngine_error:
  "chooseVisionEngine cfg a b = Inl e \<Longrightarrow>
   e = VisionKeyRequired \<and> textProvider cfg = Anthropic \<and> \<not> present a \<and> \<not> present b"
  by (auto simp: chooseVisionEngine_def split: if_splits)

lemma callTextModel_error:
  "fst (callTextModel r v m p u a b c w) = Inl e \<Longrightarrow> e \<noteq> AnthropicNoImage \<and> e \<noteq> VisionKeyRequired"
  by (auto simp: callTextModel_def text_outcome_def parseDataUrl_def Let_def
           split: ApiVendor.splits option.splits sum.splits if_splits TextReply.splits)

lemma callImageEdit_error:
  "fst (callImageEdit r v m p f a b w) = Inl e \<Longrightarrow>
   e \<noteq> VisionKeyRequired \<and> (e = AnthropicNoImage \<longrightarrow> v = Anthropic_API)"
  by (auto simp: callImageEdit_def Let_def
           split: ApiVendor.splits option.splits if_splits ImageReply.splits)

lemma stages_error:
  assumes "fst (stages env title uc img url cfg w0) = Inl e"
  shows "(e = AnthropicNoImage \<longrightarrow> getApiVendor (imageProvider cfg) = Anthropic_API)
       \<and> (e = VisionKeyRequired \<longrightarrow>
            textProvider cfg = Anthropic \<and> \<not> present (OPENAI_API_KEY env) \<and> \<not> present (GEMINI_API_KEY env))"
proof -
  let ?ok = "OPENAI_API_KEY env" and ?gk = "GEMINI_API_KEY env" and ?ak = "ANTHROPIC_API_KEY env"
  let ?rid = "length (requestLog (db w0))"
  let ?tm = "resolveApiModel (textProvider cfg) Text (textModel cfg)"
  let ?im = "resolveApiModel (imageProvider cfg) Image (imageModel cfg)"
  let ?S = "stages env title uc img url cfg w0"
  define w1 where "w1 = snd (requestLog_create (initial_log title uc cfg) w0)"
  have rid1: "fst (requestLog_create (initial_log title uc cfg) w0) = ?rid" by simp
  note unf = stages_def Let_def split_beta w1_def[symmetric] rid1
  show ?thesis
  proof (cases "chooseVisionEngine cfg ?ok ?gk")
    case (Inl e')
    then have "e = e'" using assms by (simp add: unf)
    then show ?thesis using chooseVisionEngine_error[OF Inl] by simp
  next
    case (Inr ve)
    define R1 where "R1 = callTextModel (vision_reply env) (engine_vendor ve) (engine_apiModel ve)
       (buildVisionPrompt title) (Some url) ?ok ?gk ?ak w1"
    show ?thesis
    proof (cases "fst R1")
      case (Inl e')
      then have "e = e'" using assms Inr by (simp add: unf R1_def[symmetric])
      then show ?thesis using callTextModel_error[OF Inl[unfolded R1_def]] by simp
    next
      case vc: (Inr vc)
      define vcost where "vcost = calcTextCostUsd (engine_vendor ve) (engine_apiModel ve) (result_usage vc)"
      define w3 where "w3 = requestCostLineItem_create
         (text_item ?rid VISION (engine_provider ve) (engine_apiModel ve) (result_usage vc) vcost) (snd R1)"
      define vj where "vj = nullish (safeParseJson (result_text vc)) (default_vision (result_text vc))"
      define R2 where "R2 = callTextModel (concept_reply env) (getApiVendor (textProvider cfg)) ?tm
         (buildConceptPrompt title vj (if uc \<noteq> [] then Some uc else None)) None ?ok ?gk ?ak w3"
      note unf2 = unf R1_def[symmetric] vcost_def[symmetric] w3_def[symmetric]
          vj_def[symmetric] R2_def[symmetric]
      show ?thesis
      proof (cases "fst R2")
        case (Inl e')
        then have "e = e'" using assms Inr vc by (simp add: unf2)
        then show ?thesis using callTextModel_error[OF Inl[unfolded R2_def]] by simp
      next
        case cc: (Inr cc)
        define ccost where "ccost = calcTextCostUsd (getApiVendor (textProvider cfg)) ?tm (result_usage cc)"
        define w5 where "w5 = requestCostLineItem_create
           (text_item ?rid CONCEPT (textProvider cfg) ?tm (result_usage cc) ccost) (snd R2)"
        define dir where "dir = nullish (safeParseJson (result_text cc)) (default_direction uc)"
        note unf3 = unf2 ccost_def[symmetric] w5_def[symmetric] dir_def[symmetric]
        show ?thesis
        proof (cases "conceptUsed_of (number_toString env) dir uc")
          case (Inl e')
          then have "e = e'" using assms Inr vc cc by (simp add: unf3)
          then show ?thesis using conceptUsed_of_error[OF Inl] by simp
        next
          case cu: (Inr cu)
          show ?thesis
          proof (cases "buildFinalImagePrompt (number_toString env) title vj dir")
            case (Inl e')
            then have "e = e'" using assms Inr vc cc cu by (simp add: unf3)
            then show ?thesis using buildFinalImagePrompt_error[OF Inl] by simp
          next
            case ep: (Inr ep)
            define R3 where "R3 = callImageEdit (image_reply env) (getApiVendor (imageProvider cfg))
               ?im ep img ?ok ?gk w5"
            show ?thesis
            proof (cases "fst R3")
              case (Inl e')
              then have "e = e'" using assms Inr vc cc cu ep by (simp add: unf3 R3_def[symmetric])
              then show ?thesis using callImageEdit_error[OF Inl[unfolded R3_def]] by simp
            next
              case (Inr ic)
              then have False using assms \<open>chooseVisionEngine cfg ?ok ?gk = Inr ve\<close> vc cc cu ep
                by (simp add: unf3 R3_def[symmetric])
              then show ?thesis by blast
            qed
          qed
        qed
      qed
    qed
  qed
qed

lemma anthropic_text_typed:
  assumes "js_config cfg = c" "textProvider c = JStr ''anthropic''"
  shows "textProvider cfg = Anthropic"
  using assms by (cases "textProvider cfg") (auto simp: js_config_def)

lemma image_vendor_cases:
  "(p, m) \<in> typed_pairs IMAGE_MODELS \<Longrightarrow> getApiVendor p = OpenAI_API \<or> getApiVendor p = Google_API"
  unfolding typed_image_pairs by auto

text \<open>
  C7. With Anthropic as text provider \<open>chooseVisionEngine\<close> substitutes OpenAI
  (gpt-4.1-mini) when the OpenAI key is present, else Gemini (gemini-2.5-flash) when the
  Gemini key is present, else it fails. In the handler the first vendor call of such a
  request, if any is made, goes to that fallback engine. When neither fallback key is
  present the handler makes no vendor call and writes nothing: the response is an
  error, and for a request that passes validation it is status 500 with a missing-key
  message (the image engine is OpenAI or Gemini, so step 5 already misses a key).
\<close>

theorem vision_engine_fallback:
  "(textProvider cfg = Anthropic \<longrightarrow>
      chooseVisionEngine cfg openaiKey geminiKey =
        (if present openaiKey
         then Inr \<lparr> engine_provider = OpenAI, engine_vendor = OpenAI_API,
                    engine_apiModel = ''gpt-4.1-mini'' \<rparr>
         else if present geminiKey
         then Inr \<lparr> engine_provider = Gemini, engine_vendor = Google_API,
                    engine_apiModel = ''gemini-2.5-flash'' \<rparr>
         else Inl VisionKeyRequired))
   \<and> (textProvider (loadEngineConfig form) = JStr ''anthropic'' \<longrightarrow>
        (case calls (snd (POST env (Multipart form) d)) of
           [] \<Rightarrow> True
         | c # rest \<Rightarrow>
             (\<exists>p u. c = (if present (OPENAI_API_KEY env)
                         then TextCall OpenAI_API ''gpt-4.1-mini'' p u
                         else TextCall Google_API ''gemini-2.5-flash'' p u))))
   \<and> (textProvider (loadEngineConfig form) = JStr ''anthropic''
        \<and> \<not> present (OPENAI_API_KEY env) \<and> \<not> present (GEMINI_API_KEY env) \<longrightarrow>
        snd (POST env (Multipart form) d) = \<lparr> db = d, calls = [] \<rparr>
        \<and> (\<exists>e s. fst (POST env (Multipart form) d) = ErrorJson e s
              \<and> (js_trim (form_text (form_title form) []) \<noteq> [] \<and> (\<exists>f. form_image form = FileEntry f)
                   \<longrightarrow> s = 500 \<and> (\<exists>v. e = KeyNotSet v))))"
proof -
  have p1: "textProvider cfg = Anthropic \<longrightarrow> chooseVisionEngine cfg openaiKey geminiKey =
        (if present openaiKey
         then Inr \<lparr> engine_provider = OpenAI, engine_vendor = OpenAI_API,
                    engine_apiModel = ''gpt-4.1-mini'' \<rparr>
         else if present geminiKey
         then Inr \<lparr> engine_provider = Gemini, engine_vendor = Google_API,
                    engine_apiModel = ''gemini-2.5-flash'' \<rparr>
         else Inl VisionKeyRequired)"
    by (simp add: chooseVisionEngine_def resolve_cases defaultConfig_def)
  have p2: "case calls (snd (POST env (Multipart form) d)) of
           [] \<Rightarrow> True
         | c # rest \<Rightarrow>
             (\<exists>p u. c = (if present (OPENAI_API_KEY env)
                         then TextCall OpenAI_API ''gpt-4.1-mini'' p u
                         else TextCall Google_API ''gemini-2.5-flash'' p u))"
    if a: "textProvider (loadEngineConfig form) = JStr ''anthropic''"
  proof (cases rule: POST_cases[of env form d])
    case (early e s)
    then show ?thesis by simp
  next
    case (run f cfg)
    have tp: "textProvider cfg = Anthropic"
      using anthropic_text_typed[OF run(4) a] .
    let ?S = "run_stages env form f cfg d"
    have cl: "calls (snd (POST env (Multipart form) d)) = calls (snd (snd ?S))"
      unfolding POST_run[OF run(1,2,3,7)] by (simp split: sum.splits)
    obtain cs where cs: "calls (snd (snd ?S)) = cs"
        "calls_ok env (js_trim (form_text (form_title form) []))
            (''data:'' @ mime_of f @ '';base64,'' @ file_base64 f) cfg cs"
      using stages_calls[of env "js_trim (form_text (form_title form) [])"
          "js_trim (form_text (form_concept form) [])" "f\<lparr> file_type := mime_of f \<rparr>"
          "''data:'' @ mime_of f @ '';base64,'' @ file_base64 f" cfg "\<lparr> db = d, calls = [] \<rparr>"]
      unfolding run_stages_def by auto
    show ?thesis
      unfolding cl cs(1) using cs(2) tp
      by (cases cs)
         (auto simp: calls_ok_def chooseVisionEngine_def resolve_cases defaultConfig_def
               split: sum.splits if_splits)
  qed
  have p3: "snd (POST env (Multipart form) d) = \<lparr> db = d, calls = [] \<rparr>
        \<and> (\<exists>e s. fst (POST env (Multipart form) d) = ErrorJson e s
              \<and> (js_trim (form_text (form_title form) []) \<noteq> [] \<and> (\<exists>f. form_image form = FileEntry f)
                   \<longrightarrow> s = 500 \<and> (\<exists>v. e = KeyNotSet v)))"
    if a: "textProvider (loadEngineConfig form) = JStr ''anthropic''
        \<and> \<not> present (OPENAI_API_KEY env) \<and> \<not> present (GEMINI_API_KEY env)"
  proof (cases rule: POST_cases[of env form d])
    case (early e s)
    have "js_trim (form_text (form_title form) []) \<noteq> [] \<and> (\<exists>f. form_image form = FileEntry f)
                   \<longrightarrow> s = 500 \<and> (\<exists>v. e = KeyNotSet v)"
      using early(2,4) by auto
    then show ?thesis using early(1) by simp
  next
    case (run f cfg)
    from image_vendor_cases[OF run(6)] a run(7) have False
      by (auto simp: passes_checks_def Let_def)
    then show ?thesis by blast
  qed
  from p2 have q2: "textProvider (loadEngineConfig form) = JStr ''anthropic'' \<longrightarrow>
        (case calls (snd (POST env (Multipart form) d)) of
           [] \<Rightarrow> True
         | c # rest \<Rightarrow>
             (\<exists>p u. c = (if present (OPENAI_API_KEY env)
                         then TextCall OpenAI_API ''gpt-4.1-mini'' p u
                         else TextCall Google_API ''gemini-2.5-flash'' p u)))"
    by (rule impI)
  from p3 have q3: "textProvider (loadEngineConfig form) = JStr ''anthropic''
        \<and> \<not> present (OPENAI_API_KEY env) \<and> \<not> present (GEMINI_API_KEY env) \<longrightarrow>
        snd (POST env (Multipart form) d) = \<lparr> db = d, calls = [] \<rparr>
        \<and> (\<exists>e s. fst (POST env (Multipart form) d) = ErrorJson e s
              \<and> (js_trim (form_text (form_title form) []) \<noteq> [] \<and> (\<exists>f. form_image form = FileEntry f)
                   \<longrightarrow> s = 500 \<and> (\<exists>v. e = KeyNotSet v)))"
    by (rule impI)
  show ?thesis
    by (rule conjI[OF p1 conjI[OF q2 q3]])
qed

lemma update_created_row:
  assumes "requestLog (db w) = xs @ [x]"
  shows "requestLog (db (requestLog_update (length xs) f w)) = xs @ [f x]"
  using assms by simp

text \<open>
  C6. When the handler answers with a result, all three vendor replies were successful
  and exactly three calls were made; one log row was added with success set, no error
  message, the elapsed latency and a total cost that is the sum of the costs of the three
  line items added for it (VISION, CONCEPT, IMAGE_EDIT, in this order, all finite); the
  row's concept and the response's concept are the string derived from the concept reply,
  and the response's image is the non-empty payload of the image reply.
\<close>

theorem successful_request_log:
  assumes "POST env req d = (ResultJson g, w)"
  shows "\<exists>a b k vi ci ii row vc cc ip form.
      requestLog (db w) = requestLog d @ [row]
    \<and> log_success row \<and> log_errorMessage row = None
    \<and> log_totalCostUsd row = Num (a + b + k)
    \<and> log_conceptUsed row = Some (concept_used g)
    \<and> log_latencyMs row = finished_at env - started_at env
    \<and> requestCostLineItem (db w) = requestCostLineItem d @ [vi, ci, ii]
    \<and> item_stage vi = VISION \<and> item_costUsd vi = Num a \<and> item_requestId vi = length (requestLog d)
    \<and> item_stage ci = CONCEPT \<and> item_costUsd ci = Num b \<and> item_requestId ci = length (requestLog d)
    \<and> item_stage ii = IMAGE_EDIT \<and> item_costUsd ii = Num k \<and> item_requestId ii = length (requestLog d)
    \<and> image_base64 g \<noteq> []
    \<and> vision_reply env = TextHttpOk vc
    \<and> concept_reply env = TextHttpOk cc
    \<and> image_reply env = ImageHttpOk ip \<and> payload_b64 ip = Some (image_base64 g)
    \<and> req = Multipart form
    \<and> conceptUsed_of (number_toString env)
          (nullish (safeParseJson (result_text cc))
             (default_direction (js_trim (form_text (form_concept form) []))))
          (js_trim (form_text (form_concept form) [])) = Inr (concept_used g)
    \<and> length (calls w) = 3"
proof (cases req)
  case (Unreadable m)
  then show ?thesis using assms by (simp add: POST_unreadable)
next
  case (Multipart form)
  show ?thesis
  proof (cases rule: POST_cases[of env form d])
    case (early e s)
    then show ?thesis using assms Multipart by simp
  next
    case (run f cfg)
    let ?S = "run_stages env form f cfg d"
    let ?uc = "js_trim (form_text (form_concept form) [])"
    let ?title = "js_trim (form_text (form_title form) [])"
    note P = POST_run[OF run(1,2,3,7), of d]
    obtain r where r: "fst ?S = Inr r"
      using assms Multipart P by (cases "fst ?S") simp_all
    have g: "r = ResultJson g" and w: "w = snd (snd ?S)"
      using assms Multipart P r by simp_all
    from stages_success[OF r[unfolded run_stages_def], folded run_stages_def]
    obtain ve vc cc ip cu b where
        ve: "chooseVisionEngine cfg (OPENAI_API_KEY env) (GEMINI_API_KEY env) = Inr ve"
      and vr: "vision_reply env = TextHttpOk vc"
      and cr: "concept_reply env = TextHttpOk cc"
      and ir: "image_reply env = ImageHttpOk ip"
      and b: "payload_b64 ip = Some b" "b \<noteq> []"
      and rr: "r = ResultJson \<lparr> concept_used = cu, image_base64 = b \<rparr>"
      and cu: "conceptUsed_of (number_toString env)
                 (nullish (safeParseJson (result_text cc)) (default_direction ?uc)) ?uc = Inr cu"
      and logs: "requestLog (db (snd (snd ?S))) = requestLog d @
          [ (initial_log ?title ?uc cfg)
              \<lparr> log_conceptUsed := Some cu, log_success := True, log_errorMessage := None,
                log_latencyMs := finished_at env - started_at env,
                log_totalCostUsd :=
                  js_add (js_add (js_add (Num 0)
                     (calcTextCostUsd (engine_vendor ve) (engine_apiModel ve) (result_usage vc)))
                     (calcTextCostUsd (getApiVendor (textProvider cfg))
                        (resolveApiModel (textProvider cfg) Text (textModel cfg)) (result_usage cc)))
                     (calcImageCostUsd (getApiVendor (imageProvider cfg))
                        (resolveApiModel (imageProvider cfg) Image (imageModel cfg)) 1 (Some Low)
                        (if getApiVendor (imageProvider cfg) = Google_API
                         then Some (payload_usage ip) else None)) \<rparr> ]"
      and items: "requestCostLineItem (db (snd (snd ?S))) = requestCostLineItem d @
          [ text_item (length (requestLog d)) VISION (engine_provider ve) (engine_apiModel ve)
              (result_usage vc)
              (calcTextCostUsd (engine_vendor ve) (engine_apiModel ve) (result_usage vc)),
            text_item (length (requestLog d)) CONCEPT (textProvider cfg)
              (resolveApiModel (textProvider cfg) Text (textModel cfg)) (result_usage cc)
              (calcTextCostUsd (getApiVendor (textProvider cfg))
                 (resolveApiModel (textProvider cfg) Text (textModel cfg)) (result_usage cc)),
            image_item (length (requestLog d)) (imageProvider cfg)
              (resolveApiModel (imageProvider cfg) Image (imageModel cfg))
              (calcImageCostUsd (getApiVendor (imageProvider cfg))
                 (resolveApiModel (imageProvider cfg) Image (imageModel cfg)) 1 (Some Low)
                 (if getApiVendor (imageProvider cfg) = Google_API
                  then Some (payload_usage ip) else None)) ]"
      and cl: "length (calls (snd (snd ?S))) = 3"
      by auto
    obtain rv where "map_of (TEXT_RATES (engine_vendor ve)) (engine_apiModel ve) = Some rv"
      using vision_priced[OF ve run(5)] by blast
    then obtain a where a: "calcTextCostUsd (engine_vendor ve) (engine_apiModel ve) (result_usage vc) = Num a"
      using calcTextCostUsd_Num by blast
    obtain rt where "map_of (TEXT_RATES (getApiVendor (textProvider cfg)))
                       (resolveApiModel (textProvider cfg) Text (textModel cfg)) = Some rt"
      using text_priced[OF run(5)] by blast
    then obtain b' where b': "calcTextCostUsd (getApiVendor (textProvider cfg))
                        (resolveApiModel (textProvider cfg) Text (textModel cfg)) (result_usage cc) = Num b'"
      using calcTextCostUsd_Num by blast
    obtain k where k: "calcImageCostUsd (getApiVendor (imageProvider cfg))
                        (resolveApiModel (imageProvider cfg) Image (imageModel cfg)) 1 (Some Low)
                        (if getApiVendor (imageProvider cfg) = Google_API
                         then Some (payload_usage ip) else None) = Num k"
      using calcImageCostUsd_Num by blast
    have gg: "concept_used g = cu" "image_base64 g = b"
      using g rr by auto
    let ?rid = "length (requestLog d)"
    let ?vi = "text_item ?rid VISION (engine_provider ve) (engine_apiModel ve) (result_usage vc) (Num a)"
    let ?ci = "text_item ?rid CONCEPT (textProvider cfg)
                 (resolveApiModel (textProvider cfg) Text (textModel cfg)) (result_usage cc) (Num b')"
    let ?ii = "image_item ?rid (imageProvider cfg)
                 (resolveApiModel (imageProvider cfg) Image (imageModel cfg)) (Num k)"
    let ?row = "(initial_log ?title ?uc cfg)
              \<lparr> log_conceptUsed := Some cu, log_success := True, log_errorMessage := None,
                log_latencyMs := finished_at env - started_at env,
                log_totalCostUsd := Num (a + b' + k) \<rparr>"
    have logs': "requestLog (db w) = requestLog d @ [?row]"
      unfolding w logs a b' k by simp
    have items': "requestCostLineItem (db w) = requestCostLineItem d @ [?vi, ?ci, ?ii]"
      unfolding w items a b' k by simp
    show ?thesis
      apply (rule exI[of _ a], rule exI[of _ b'], rule exI[of _ k])
      apply (rule exI[of _ ?vi], rule exI[of _ ?ci], rule exI[of _ ?ii], rule exI[of _ ?row])
      apply (rule exI[of _ vc], rule exI[of _ cc], rule exI[of _ ip], rule exI[of _ form])
      apply (simp add: logs' items' gg b vr cr ir Multipart cu text_item_def image_item_def)
      apply (simp add: w cl)
      done
  qed
qed

text \<open>
  C10. When the handler answers with an error after a log row was created, the status is
  500 and the row is the initial row with only success (false), the error message and the
  latency written: its total cost is still 0 and its concept still null, whatever line
  items the completed stages have added.
\<close>

theorem failed_request_log:
  assumes "POST env req d = (ErrorJson e s, w)"
    and "requestLog (db w) \<noteq> requestLog d"
  shows "s = 500
    \<and> (\<exists>title userConcept cfg.
          requestLog (db w) = requestLog d @
            [ (initial_log title userConcept cfg)
                \<lparr> log_success := False, log_errorMessage := Some e,
                  log_latencyMs := finished_at env - started_at env \<rparr> ])
    \<and> (\<exists>row. requestLog (db w) = requestLog d @ [row]
          \<and> log_totalCostUsd row = Num 0 \<and> log_conceptUsed row = None
          \<and> \<not> log_success row \<and> log_errorMessage row = Some e
          \<and> log_latencyMs row = finished_at env - started_at env)"
proof (cases req)
  case (Unreadable m)
  then show ?thesis using assms by (auto simp: POST_unreadable)
next
  case (Multipart form)
  show ?thesis
  proof (cases rule: POST_cases[of env form d])
    case (early e' s')
    then show ?thesis using assms Multipart by auto
  next
    case (run f cfg)
    let ?S = "run_stages env form f cfg d"
    let ?uc = "js_trim (form_text (form_concept form) [])"
    let ?title = "js_trim (form_text (form_title form) [])"
    let ?f = "\<lambda>r. r\<lparr> log_success := False, log_errorMessage := Some e,
                      log_latencyMs := finished_at env - started_at env \<rparr>"
    note P = POST_run[OF run(1,2,3,7), of d]
    have "\<exists>msg. fst ?S = Inl msg"
    proof (cases "fst ?S")
      case (Inl msg)
      then show ?thesis by blast
    next
      case (Inr r)
      from stages_success[OF Inr[unfolded run_stages_def]] obtain g where "r = ResultJson g" by blast
      then show ?thesis using assms(1) Multipart P Inr by simp
    qed
    then obtain msg where msg: "fst ?S = Inl msg" by blast
    have e: "msg = e" and s: "s = 500"
      and w: "w = requestLog_update (fst (snd ?S)) ?f (snd (snd ?S))"
      using assms(1) Multipart P msg by auto
    have rid: "fst (snd ?S) = length (requestLog d)"
      by (simp add: run_stages_def stages_rid)
    have logs: "requestLog (db (snd (snd ?S))) = requestLog d @ [initial_log ?title ?uc cfg]"
      using stages_log_Inl[OF msg[unfolded run_stages_def]] by (simp add: run_stages_def)
    have lw: "requestLog (db w) = requestLog d @ [?f (initial_log ?title ?uc cfg)]"
      unfolding w rid by (rule update_created_row[OF logs])
    have 2: "\<exists>title userConcept cfg.
          requestLog (db w) = requestLog d @
            [ (initial_log title userConcept cfg)
                \<lparr> log_success := False, log_errorMessage := Some e,
                  log_latencyMs := finished_at env - started_at env \<rparr> ]"
      using lw by blast
    have 3: "\<exists>row. requestLog (db w) = requestLog d @ [row]
          \<and> log_totalCostUsd row = Num 0 \<and> log_conceptUsed row = None
          \<and> \<not> log_success row \<and> log_errorMessage row = Some e
          \<and> log_latencyMs row = finished_at env - started_at env"
      by (rule exI[of _ "?f (initial_log ?title ?uc cfg)"]) (simp add: lw initial_log_def)
    from s 2 3 show ?thesis by blast
  qed
qed

lemma own_prop_truthy: "own_prop v k = Some x \<Longrightarrow> truthy v"
  by (cases v) simp_all

lemma openai_image_typed:
  assumes "js_config cfg = c" "imageProvider c = JStr ''openai''" "imageModel c = JStr m"
  shows "imageProvider cfg = OpenAI \<and> imageModel cfg = m"
  using assms by (cases "imageProvider cfg") (auto simp: js_config_def)

lemma POST_never_anthropic_image:
  "fst (POST env (Multipart form) d) \<noteq> ErrorJson AnthropicNoImage s"
proof (cases rule: POST_cases[of env form d])
  case (early e s')
  then show ?thesis by auto
next
  case (run f cfg)
  let ?S = "run_stages env form f cfg d"
  note P = POST_run[OF run(1,2,3,7), of d]
  show ?thesis
  proof (cases "fst ?S")
    case (Inl msg)
    from stages_error[OF Inl[unfolded run_stages_def]] image_not_anthropic[OF run(6)]
    have "msg \<noteq> AnthropicNoImage" by blast
    then show ?thesis unfolding P using Inl by simp
  next
    case (Inr r)
    from stages_success[OF Inr[unfolded run_stages_def]] obtain g where "r = ResultJson g" by blast
    then show ?thesis unfolding P using Inr by simp
  qed
qed

lemma POST_calls_ok:
  obtains "calls (snd (POST env (Multipart form) d)) = []"
  | f cfg where "typed_config (loadEngineConfig form) = Some cfg"
      "js_config cfg = loadEngineConfig form"
      "calls_ok env (js_trim (form_text (form_title form) []))
            (''data:'' @ mime_of f @ '';base64,'' @ file_base64 f) cfg
            (calls (snd (POST env (Multipart form) d)))"
proof (cases rule: POST_cases[of env form d])
  case (early e s)
  then show ?thesis using that(1) by simp
next
  case (run f cfg)
  let ?S = "run_stages env form f cfg d"
  have cl: "calls (snd (POST env (Multipart form) d)) = calls (snd (snd ?S))"
    unfolding POST_run[OF run(1,2,3,7)] by (simp split: sum.splits)
  have "calls_ok env (js_trim (form_text (form_title form) []))
            (''data:'' @ mime_of f @ '';base64,'' @ file_base64 f) cfg (calls (snd (snd ?S)))"
    using stages_calls[of env "js_trim (form_text (form_title form) [])"
          "js_trim (form_text (form_concept form) [])" "f\<lparr> file_type := mime_of f \<rparr>"
          "''data:'' @ mime_of f @ '';base64,'' @ file_base64 f" cfg "\<lparr> db = d, calls = [] \<rparr>"]
    unfolding run_stages_def by auto
  then show ?thesis using that(2)[OF run(3,4)] cl by simp
qed

text \<open>
  C2, as stated, fails: a request whose configuration names Anthropic as image provider
  is not rejected. With every vendor answering, the handler returns the result, after
  three vendor calls.
\<close>

theorem anthropic_image_choice_not_rejected:
  "fst (POST sample_env
          (Multipart (sample_form (TextEntry ''{\"imageProvider\":\"anthropic\"}''))) empty_db)
     = ResultJson \<lparr> concept_used = ''clean studio'', image_base64 = ''iVBORw0KGgo='' \<rparr>
   \<and> length (calls (snd (POST sample_env
          (Multipart (sample_form (TextEntry ''{\"imageProvider\":\"anthropic\"}''))) empty_db))) = 3"
  by code_simp

text \<open>
  C2, amended. When the posted configuration names Anthropic as image provider,
  \<open>normalizeEngineConfig\<close> replaces the image engine by the default (openai with
  gpt-image-1-mini) before any check. The handler never answers with the "Anthropic does
  not support images" error, under any status, and every image call it makes goes to
  OpenAI with gpt-image-1-mini.
\<close>

theorem anthropic_image_choice_normalized:
  assumes "JSON_parse (form_text (form_engineConfig form) ''{}'') = Some v"
    and "own_prop v ''imageProvider'' = Some (JStr ''anthropic'')"
  shows "imageProvider (loadEngineConfig form) = JStr ''openai''
     \<and> imageModel (loadEngineConfig form) = JStr ''gpt-image-1-mini''
     \<and> (\<forall>s. fst (POST env (Multipart form) d) \<noteq> ErrorJson AnthropicNoImage s)
     \<and> list_all (\<lambda>c. case c of
                       TextCall a b p u \<Rightarrow> True
                     | ImageCall a b p f \<Rightarrow> a = OpenAI_API \<and> b = ''gpt-image-1-mini'')
          (calls (snd (POST env (Multipart form) d)))"
proof -
  have l: "loadEngineConfig form = normalizeEngineConfig v"
    using assms(1) by (simp add: loadEngineConfig_def)
  have "(imageProvider (normalizeEngineConfig v), imageModel (normalizeEngineConfig v))
          = (JStr ''openai'', JStr ''gpt-image-1-mini'')"
    unfolding normalize_image
    using own_prop_truthy[OF assms(2)] assms(2) anthropic_no_image
    by (simp add: Let_def slot_def)
  then have n: "imageProvider (loadEngineConfig form) = JStr ''openai''"
      "imageModel (loadEngineConfig form) = JStr ''gpt-image-1-mini''"
    unfolding l by simp_all
  have c: "list_all (\<lambda>c. case c of
                       TextCall a b p u \<Rightarrow> True
                     | ImageCall a b p f \<Rightarrow> a = OpenAI_API \<and> b = ''gpt-image-1-mini'')
          (calls (snd (POST env (Multipart form) d)))"
  proof (cases rule: POST_calls_ok[of env form d])
    case 1
    then show ?thesis by simp
  next
    case (2 f cfg)
    from openai_image_typed[OF 2(2) n] have ic: "imageProvider cfg = OpenAI" "imageModel cfg = ''gpt-image-1-mini''"
      by simp_all
    have "list_all (\<lambda>c. case c of
                        TextCall v m p u \<Rightarrow> True
                      | ImageCall v m p f \<Rightarrow>
                          v = getApiVendor (imageProvider cfg)
                          \<and> m = resolveApiModel (imageProvider cfg) Image (imageModel cfg))
            (calls (snd (POST env (Multipart form) d)))"
      using 2(3) unfolding calls_ok_def by (rule conjunct2)
    moreover have "getApiVendor OpenAI = OpenAI_API"
        "resolveApiModel OpenAI Image ''gpt-image-1-mini'' = ''gpt-image-1-mini''"
      by (simp_all add: resolve_cases)
    ultimately show ?thesis unfolding ic by (simp only:)
  qed
  from n c POST_never_anthropic_image show ?thesis by blast
qed

theorem anthropic_image_choice_normalized_witness:
  "JSON_parse (form_text (form_engineConfig (sample_form (TextEntry ''{\"imageProvider\":\"anthropic\"}''))) ''{}'')
      = Some (JObj [(''imageProvider'', JStr ''anthropic'')])
   \<and> own_prop (JObj [(''imageProvider'', JStr ''anthropic'')]) ''imageProvider'' = Some (JStr ''anthropic'')
   \<and> imageProvider (loadEngineConfig (sample_form (TextEntry ''{\"imageProvider\":\"anthropic\"}''))) = JStr ''openai''
   \<and> imageModel (loadEngineConfig (sample_form (TextEntry ''{\"imageProvider\":\"anthropic\"}'')))
        = JStr ''gpt-image-1-mini''"
proof -
  have h1: "JSON_parse (form_text (form_engineConfig (sample_form (TextEntry ''{\"imageProvider\":\"anthropic\"}''))) ''{}'')
      = Some (JObj [(''imageProvider'', JStr ''anthropic'')])"
    by code_simp
  have h2: "own_prop (JObj [(''imageProvider'', JStr ''anthropic'')]) ''imageProvider'' = Some (JStr ''anthropic'')"
    by simp
  from anthropic_image_choice_normalized[OF h1 h2, of sample_env empty_db] h1 h2
  show ?thesis by simp
qed

theorem successful_request_log_witness:
  "fst (POST sample_env (Multipart (sample_form NoEntry)) empty_db)
     = ResultJson \<lparr> concept_used = ''clean studio'', image_base64 = ''iVBORw0KGgo='' \<rparr>
   \<and> (\<exists>a b k row.
         requestLog (db (snd (POST sample_env (Multipart (sample_form NoEntry)) empty_db))) = [row]
       \<and> log_success row \<and> log_totalCostUsd row = Num (a + b + k)
       \<and> map item_costUsd
            (requestCostLineItem (db (snd (POST sample_env (Multipart (sample_form NoEntry)) empty_db))))
          = [Num a, Num b, Num k])
   \<and> map item_costUsd
        (requestCostLineItem (db (snd (POST sample_env (Multipart (sample_form NoEntry)) empty_db))))
      = [Num (21 / 12500), Num (21 / 12500), Num (5 / 1000)]"
proof -
  let ?P = "POST sample_env (Multipart (sample_form NoEntry)) empty_db"
  have f: "fst ?P = ResultJson \<lparr> concept_used = ''clean studio'', image_base64 = ''iVBORw0KGgo='' \<rparr>"
    by code_simp
  then have h: "?P = (ResultJson \<lparr> concept_used = ''clean studio'', image_base64 = ''iVBORw0KGgo='' \<rparr>, snd ?P)"
    by (simp add: prod_eq_iff)
  have e: "requestLog empty_db = []" "requestCostLineItem empty_db = []"
    by (simp_all add: empty_db_def)
  from successful_request_log[OF h]
  have "\<exists>a b k row.
         requestLog (db (snd ?P)) = [row]
       \<and> log_success row \<and> log_totalCostUsd row = Num (a + b + k)
       \<and> map item_costUsd (requestCostLineItem (db (snd ?P))) = [Num a, Num b, Num k]"
    unfolding e by (elim exE conjE) (intro exI conjI, simp_all)
  moreover have "map item_costUsd (requestCostLineItem (db (snd ?P)))
      = [Num (21 / 12500), Num (21 / 12500), Num (5 / 1000)]"
    by code_simp
  ultimately show ?thesis using f by blast
qed

theorem failed_request_log_witness:
  "fst (POST (sample_env\<lparr> image_reply := ImageHttpError ''quota'' \<rparr>) (Multipart (sample_form NoEntry)) empty_db)
     = ErrorJson (ImageCallFailed OpenAI_API ''quota'') 500
   \<and> (\<exists>row.
         requestLog (db (snd (POST (sample_env\<lparr> image_reply := ImageHttpError ''quota'' \<rparr>)
                                (Multipart (sample_form NoEntry)) empty_db))) = [row]
       \<and> log_totalCostUsd row = Num 0 \<and> log_conceptUsed row = None \<and> \<not> log_success row
       \<and> log_errorMessage row = Some (ImageCallFailed OpenAI_API ''quota'')
       \<and> log_latencyMs row = 3500)
   \<and> map item_costUsd
        (requestCostLineItem (db (snd (POST (sample_env\<lparr> image_reply := ImageHttpError ''quota'' \<rparr>)
                                (Multipart (sample_form NoEntry)) empty_db))))
      = [Num (21 / 12500), Num (21 / 12500)]"
proof -
  let ?E = "sample_env\<lparr> image_reply := ImageHttpError ''quota'' \<rparr>"
  let ?P = "POST ?E (Multipart (sample_form NoEntry)) empty_db"
  have f: "fst ?P = ErrorJson (ImageCallFailed OpenAI_API ''quota'') 500"
    by code_simp
  then have h: "?P = (ErrorJson (ImageCallFailed OpenAI_API ''quota'') 500, snd ?P)"
    by (simp add: prod_eq_iff)
  have e: "requestLog empty_db = []" by (simp add: empty_db_def)
  have n: "requestLog (db (snd ?P)) \<noteq> requestLog empty_db"
    unfolding e by code_simp
  have t: "finished_at ?E - started_at ?E = 3500" by (simp add: sample_env_def)
  from failed_request_log[OF h n]
  have "\<exists>row. requestLog (db (snd ?P)) = [row]
       \<and> log_totalCostUsd row = Num 0 \<and> log_conceptUsed row = None \<and> \<not> log_success row
       \<and> log_errorMessage row = Some (ImageCallFailed OpenAI_API ''quota'')
       \<and> log_latencyMs row = 3500"
    unfolding e t by simp
  moreover have "map item_costUsd (requestCostLineItem (db (snd ?P)))
      = [Num (21 / 12500), Num (21 / 12500)]"
    by code_simp
  ultimately show ?thesis using f by blast
qed

theorem vision_engine_fallback_witness:
  "textProvider (loadEngineConfig
       (sample_form (TextEntry ''{\"textProvider\":\"anthropic\",\"textModel\":\"claude-haiku\"}'')))
     = JStr ''anthropic''
   \<and> \<not> present (OPENAI_API_KEY (sample_env\<lparr> OPENAI_API_KEY := None \<rparr>))
   \<and> \<not> present (GEMINI_API_KEY (sample_env\<lparr> OPENAI_API_KEY := None \<rparr>))
   \<and> POST (sample_env\<lparr> OPENAI_API_KEY := None \<rparr>)
        (Multipart (sample_form (TextEntry ''{\"textProvider\":\"anthropic\",\"textModel\":\"claude-haiku\"}'')))
        empty_db
      = (ErrorJson (KeyNotSet OpenAI_API) 500, \<lparr> db = empty_db, calls = [] \<rparr>)
   \<and> present (OPENAI_API_KEY sample_env)
   \<and> (\<exists>p u rest.
         calls (snd (POST sample_env
           (Multipart (sample_form (TextEntry ''{\"textProvider\":\"anthropic\",\"textModel\":\"claude-haiku\"}'')))
           empty_db))
         = TextCall OpenAI_API ''gpt-4.1-mini'' p u # rest)
   \<and> chooseVisionEngine
        \<lparr> textProvider = Anthropic, textModel = ''claude-haiku'',
          imageProvider = Gemini, imageModel = ''gemini-2.5-flash-image'' \<rparr> None (Some ''g-key'')
      = Inr \<lparr> engine_provider = Gemini, engine_vendor = Google_API,
              engine_apiModel = ''gemini-2.5-flash'' \<rparr>"
proof -
  let ?F = "sample_form (TextEntry ''{\"textProvider\":\"anthropic\",\"textModel\":\"claude-haiku\"}'')"
  let ?E = "sample_env\<lparr> OPENAI_API_KEY := None \<rparr>"
  let ?C = "\<lparr> textProvider = Anthropic, textModel = ''claude-haiku'',
          imageProvider = Gemini, imageModel = ''gemini-2.5-flash-image'' \<rparr>"
  note T = vision_engine_fallback[of ?C None "Some ''g-key''" ?F ?E empty_db]
  note U = vision_engine_fallback[of ?C None "Some ''g-key''" ?F sample_env empty_db]
  have h1: "textProvider (loadEngineConfig ?F) = JStr ''anthropic''" by code_simp
  have h2: "\<not> present (OPENAI_API_KEY ?E)" "\<not> present (GEMINI_API_KEY ?E)"
    by (simp_all add: present_def sample_env_def)
  have h3: "present (OPENAI_API_KEY sample_env)"
    by (simp add: present_def sample_env_def)
  have f: "fst (POST ?E (Multipart ?F) empty_db) = ErrorJson (KeyNotSet OpenAI_API) 500"
    by code_simp
  from T h1 h2 have "snd (POST ?E (Multipart ?F) empty_db) = \<lparr> db = empty_db, calls = [] \<rparr>"
    by blast
  with f have p: "POST ?E (Multipart ?F) empty_db
      = (ErrorJson (KeyNotSet OpenAI_API) 500, \<lparr> db = empty_db, calls = [] \<rparr>)"
    by (simp add: prod_eq_iff)
  have ne: "calls (snd (POST sample_env (Multipart ?F) empty_db)) \<noteq> []"
    by code_simp
  from U h1 have "case calls (snd (POST sample_env (Multipart ?F) empty_db)) of
           [] \<Rightarrow> True
         | c # rest \<Rightarrow>
             (\<exists>p u. c = (if present (OPENAI_API_KEY sample_env)
                         then TextCall OpenAI_API ''gpt-4.1-mini'' p u
                         else TextCall Google_API ''gemini-2.5-flash'' p u))"
    by blast
  with ne h3 have c: "\<exists>p u rest. calls (snd (POST sample_env (Multipart ?F) empty_db))
         = TextCall OpenAI_API ''gpt-4.1-mini'' p u # rest"
    by (cases "calls (snd (POST sample_env (Multipart ?F) empty_db))") auto
  from T have "chooseVisionEngine ?C None (Some ''g-key'')
      = Inr \<lparr> engine_provider = Gemini, engine_vendor = Google_API,
              engine_apiModel = ''gemini-2.5-flash'' \<rparr>"
    by (simp add: present_def)
  with h1 h2 h3 p c show ?thesis by blast
qed

end
